theory Spec2Isabelle
  imports Complex_Main
begin

section \<open>Data model of the simplex engine (simplex/HEkk.cpp)\<close>

text \<open>
  The engine works on C++ \<^verbatim>\<open>double\<close> values and \<^verbatim>\<open>HighsInt\<close> indices.
  Doubles are modelled as \<^typ>\<open>real\<close> (the usual idealisation: no rounding, and the
  infinite bound \<^verbatim>\<open>kHighsInf\<close> is a parameter \<open>inf\<close> of the functions that compare
  with it).  Array indices and dimensions are \<^typ>\<open>nat\<close>; counters and the
  \<^verbatim>\<open>int8_t\<close> flag and move entries are \<^typ>\<open>int\<close>.  Timers, logging and the
  analysis records have no effect on the data below and are left out.
\<close>

datatype HighsStatus = kOk | kWarning | kError

datatype HighsModelStatus =
    kNotset | kOptimal | kInfeasible | kUnbounded | kUnboundedOrInfeasible
  | kReachedTimeLimit | kReachedIterationLimit
  | kReachedDualObjectiveValueUpperBound | kUnknown

datatype ObjSense = kMinimize | kMaximize

datatype HighsBasisStatus = kLower | kBasic | kUpper | kZero | kNonbasic

datatype SimplexAlgorithm = kPrimal | kDual

datatype SimplexStrategy =
    kSimplexStrategyChoose | kSimplexStrategyDual | kSimplexStrategyDualTasks
  | kSimplexStrategyDualMulti | kSimplexStrategyPrimal

datatype LpAction = kNewBasis | kBacktracking | kHotStart | kScaledCol

text \<open>
  Modelled from the spec: the values of the constants of SimplexConst.h, which is not
  among the sources.  The spec gives \<open>nonbasicFlag \<in> {0,1}\<close> with 1 for nonbasic,
  and moves \<open>+1\<close> (at lower, may move up), \<open>-1\<close> (at upper) and \<open>0\<close>; the
  source itself writes the literals \<open>0\<close>, \<open>1\<close> and \<open>-1\<close> in
  \<^verbatim>\<open>updatePivots\<close>.  The illegal move is any value apart from these three.
\<close>

definition kNonbasicFlagTrue :: int where "kNonbasicFlagTrue = 1"
definition kNonbasicFlagFalse :: int where "kNonbasicFlagFalse = 0"
definition kNonbasicMoveUp :: int where "kNonbasicMoveUp = 1"
definition kNonbasicMoveDn :: int where "kNonbasicMoveDn = - 1"
definition kNonbasicMoveZe :: int where "kNonbasicMoveZe = 0"
definition kIllegalMoveValue :: int where "kIllegalMoveValue = - 99"

text \<open>
  Modelled from the spec: \<^verbatim>\<open>(HighsInt)sense_\<close>, the sign that flips costs and
  duals when maximising.
\<close>

definition sense_int :: "ObjSense \<Rightarrow> real" where
  "sense_int sn = (case sn of kMinimize \<Rightarrow> 1 | kMaximize \<Rightarrow> - 1)"

record SimplexBasis =
  basicIndex :: "nat list"
  nonbasicFlag :: "int list"
  nonbasicMove :: "int list"

text \<open>The basis as the host sees it: a status per column and per row.\<close>

record HighsBasis =
  valid :: bool
  alien :: bool
  was_alien :: bool
  col_status :: "HighsBasisStatus list"
  row_status :: "HighsBasisStatus list"

text \<open>The engine's copy of the LP, \<^verbatim>\<open>simplex_lp_\<close>.\<close>

record SimplexLp =
  numCol :: nat
  numRow :: nat
  Astart :: "nat list"
  Aindex :: "nat list"
  Avalue :: "real list"
  colCost :: "real list"
  colLower :: "real list"
  colUpper :: "real list"
  rowLower :: "real list"
  rowUpper :: "real list"
  sense :: ObjSense
  offset :: real

text \<open>
  \<^verbatim>\<open>simplex_lp_status_\<close>.  Its member \<^verbatim>\<open>valid\<close> is called
  \<open>status_valid\<close> here, to keep it apart from the validity flag of the basis.
\<close>

record HighsSimplexLpStatus =
  initialised :: bool
  initialised_for_solve :: bool
  status_valid :: bool
  has_basis :: bool
  has_matrix :: bool
  has_factor_arrays :: bool
  has_invert :: bool
  has_fresh_invert :: bool
  has_fresh_rebuild :: bool
  has_dual_ray :: bool
  has_primal_ray :: bool
  has_basic_primal_values :: bool
  has_nonbasic_dual_values :: bool
  has_dual_objective_value :: bool
  has_primal_objective_value :: bool

text \<open>\<^verbatim>\<open>simplex_info_\<close>, in two records: the arrays, and the scalars.\<close>

record HighsSimplexWork =
  workCost :: "real list"
  workDual :: "real list"
  workShift :: "real list"
  workLower :: "real list"
  workUpper :: "real list"
  workRange :: "real list"
  workValue :: "real list"
  workLowerShift :: "real list"
  workUpperShift :: "real list"
  baseLower :: "real list"
  baseUpper :: "real list"
  baseValue :: "real list"
  numTotRandomValue :: "real list"
  devex_index :: "int list"
  backtracking_basis :: SimplexBasis
  backtracking_basis_workShift :: "real list"
  backtracking_basis_edge_weights :: "real list"

record HighsSimplexInfo =
  costs_perturbed :: int
  bounds_perturbed :: int
  update_count :: int
  update_limit :: int
  num_basic_logicals :: int
  updated_dual_objective_value :: real
  primal_objective_value :: real
  dual_objective_value :: real
  backtracking :: bool
  valid_backtracking_basis :: bool
  backtracking_basis_costs_perturbed :: int
  num_primal_infeasibility :: int
  max_primal_infeasibility :: real
  sum_primal_infeasibility :: real
  num_dual_infeasibility :: int
  max_dual_infeasibility :: real
  sum_dual_infeasibility :: real
  dual_simplex_cost_perturbation_multiplier :: real
  primal_simplex_bound_perturbation_multiplier :: real
  allow_cost_perturbation :: bool
  allow_bound_perturbation :: bool
  simplex_strategy :: SimplexStrategy
  dual_edge_weight_devex :: bool
  min_threads :: int
  max_threads :: int
  num_threads :: int

text \<open>
  The options the engine reads.  \<open>opt_parallel_on\<close> is the test
  \<^verbatim>\<open>options.parallel == kHighsOnString\<close>; the \<open>opt_\<close> prefix keeps the option
  members apart from the members of \<^verbatim>\<open>simplex_info_\<close> of the same name.
\<close>

record HighsOptions =
  primal_feasibility_tolerance :: real
  dual_feasibility_tolerance :: real
  simplex_update_limit :: int
  opt_simplex_strategy :: SimplexStrategy
  opt_parallel_on :: bool
  highs_min_threads :: int
  highs_max_threads :: int
  opt_dual_simplex_cost_perturbation_multiplier :: real
  opt_primal_simplex_bound_perturbation_multiplier :: real
  infinite_cost :: real
  infinite_bound :: real
  small_matrix_value :: real
  large_matrix_value :: real
  allowed_matrix_scale_factor :: int

text \<open>
  The trace of pivots that a hot start carries so that the factorisation can be
  reproduced.
\<close>

record RefactorInfo =
  pivot_row :: "int list"
  pivot_var :: "nat list"
  pivot_type :: "int list"

text \<open>
  \<^verbatim>\<open>HVector\<close>: the count of nonzeros and the dense array (the index list is only
  read by code that is not modelled).
\<close>

record HVector =
  hv_count :: int
  hv_array :: "real list"

text \<open>
  The engine object.  \<open>'f\<close> is the state of the LU factor \<^verbatim>\<open>factor_\<close>, whose
  class (HFactor) is not part of the sources at hand.  \<^verbatim>\<open>workEdWt_\<close> and
  \<^verbatim>\<open>workEdWtFull_\<close> are pointers into the dual solver's buffers; \<open>None\<close> is
  \<^verbatim>\<open>NULL\<close>.  Isabelle does not take names that end in an underscore, so the
  members are written without it.
\<close>

record 'f HEkk =
  simplex_lp :: SimplexLp
  simplex_basis :: SimplexBasis
  simplex_work :: HighsSimplexWork
  simplex_info :: HighsSimplexInfo
  simplex_lp_status :: HighsSimplexLpStatus
  options :: HighsOptions
  scaled_model_status :: HighsModelStatus
  factor :: 'f
  workEdWt :: "real list option"
  workEdWtFull :: "real list option"
  cost_scale :: real
  iteration_count :: int
  random_state :: nat
  solve_bailout :: bool
  called_return_from_solve :: bool
  hot_start_refactor_info :: RefactorInfo

text \<open>
  The collaborators of the engine whose code is not in HEkk.cpp, as parameters.
  \<open>factor_build\<close> is \<^verbatim>\<open>HFactor::build\<close>: from the factor, the LP and the basic
  index array it was set up with, it returns the rank deficiency, the new factor, the
  permuted basic index array and the lists \<^verbatim>\<open>noPvR\<close> and \<^verbatim>\<open>noPvC\<close>.
  \<open>ftran\<close> and \<open>btran\<close> are the solves with the factor, \<open>collect_aj\<close> and
  \<open>priceByColumn\<close> the operations of \<^verbatim>\<open>HMatrix\<close>, \<open>random_fraction\<close> is
  \<^verbatim>\<open>HighsRandom::fraction\<close> on a generator state, \<open>updateSimplexLpStatus\<close> is the
  status bookkeeping of HSimplex.cpp, \<open>kHighsInf\<close> is the infinite bound,
  \<open>openmp\<close> says whether the build defines \<^verbatim>\<open>OPENMP\<close> and \<open>omp_max_threads\<close> is
  what \<^verbatim>\<open>omp_get_max_threads\<close> reports then, \<open>kDualTasksMinThreads\<close> and
  \<open>kDualMultiMinThreads\<close> are the thread floors of the parallel dual simplex
  variants, \<open>kSolvePhaseUnknown\<close> and \<open>kSolvePhase2\<close> the phase constants and
  \<open>kHighsIllegalInfeasibilityCount\<close> and \<open>kHighsIllegalInfeasibilityMeasure\<close> the
  markers of an unknown infeasibility record (all from headers that are not among the
  sources), and the two \<open>logical_error\<close> tests say whether
  \<^verbatim>\<open>debugBasisConsistent\<close> returns \<^verbatim>\<open>kLogicalError\<close> for a basis of either kind.
\<close>

record 'f Collab =
  factor_build :: "'f \<Rightarrow> SimplexLp \<Rightarrow> nat list \<Rightarrow> int \<times> 'f \<times> nat list \<times> nat list \<times> nat list"
  ftran :: "'f \<Rightarrow> HVector \<Rightarrow> HVector"
  btran :: "'f \<Rightarrow> HVector \<Rightarrow> HVector"
  collect_aj :: "SimplexLp \<Rightarrow> HVector \<Rightarrow> nat \<Rightarrow> real \<Rightarrow> HVector"
  priceByColumn :: "SimplexLp \<Rightarrow> HVector \<Rightarrow> HVector"
  random_fraction :: "nat \<Rightarrow> real \<times> nat"
  updateSimplexLpStatus :: "HighsSimplexLpStatus \<Rightarrow> LpAction \<Rightarrow> HighsSimplexLpStatus"
  kHighsInf :: real
  openmp :: bool
  omp_max_threads :: int
  kDualTasksMinThreads :: int
  kDualMultiMinThreads :: int
  kSolvePhaseUnknown :: int
  kSolvePhase2 :: int
  kHighsIllegalInfeasibilityCount :: int
  kHighsIllegalInfeasibilityMeasure :: real
  highs_basis_logical_error :: "HighsOptions \<Rightarrow> SimplexLp \<Rightarrow> HighsBasis \<Rightarrow> bool"
  simplex_basis_logical_error :: "HighsOptions \<Rightarrow> SimplexLp \<Rightarrow> SimplexBasis \<Rightarrow> bool"

text \<open>
  Modelled from the spec: \<^verbatim>\<open>highs_isInfinity\<close> (not among the sources) tests a
  value against the infinite bound sentinel.
\<close>

definition highs_isInfinity :: "'f Collab \<Rightarrow> real \<Rightarrow> bool" where
  "highs_isInfinity cb v \<longleftrightarrow> kHighsInf cb \<le> v"

text \<open>
  Modelled from the spec: \<^verbatim>\<open>interpretCallStatus\<close> (not among the sources) merges
  the status of a call into the running status; an Error propagates, a Warning is
  kept, and nothing is upgraded.
\<close>

definition interpretCallStatus :: "HighsStatus \<Rightarrow> HighsStatus \<Rightarrow> HighsStatus" where
  "interpretCallStatus call_status from_return_status =
     (if call_status = kError \<or> from_return_status = kError then kError
      else if call_status = kWarning \<or> from_return_status = kWarning then kWarning
      else kOk)"

text \<open>
  \<^verbatim>\<open>std::vector::resize(n)\<close>: keeps the first \<open>n\<close> entries and pads with the
  given value.
\<close>

definition resize :: "nat \<Rightarrow> 'a \<Rightarrow> 'a list \<Rightarrow> 'a list" where
  "resize n d xs = take n xs @ replicate (n - length xs) d"

section \<open>Factorisation and backtracking\<close>

text \<open>\<^verbatim>\<open>HEkk::computeFactor\<close>: INVERT of the current basis.\<close>

definition computeFactor :: "'f Collab \<Rightarrow> 'f HEkk \<Rightarrow> int \<times> 'f HEkk" where
  "computeFactor cb s =
    (let st0 = simplex_lp_status s;
         st1 = (if \<not> has_factor_arrays st0 then st0\<lparr>has_factor_arrays := True\<rparr> else st0);
         (rank_deficiency, f', bi', noPvR, noPvC) =
            factor_build cb (factor s) (simplex_lp s) (basicIndex (simplex_basis s));
         st2 = (if rank_deficiency \<noteq> 0
                then st1\<lparr>has_invert := False, has_fresh_invert := False\<rparr>
                else st1\<lparr>has_invert := True, has_fresh_invert := True\<rparr>)
     in (rank_deficiency,
         s\<lparr>factor := f',
           simplex_basis := (simplex_basis s)\<lparr>basicIndex := bi'\<rparr>,
           simplex_lp_status := st2,
           simplex_info := (simplex_info s)\<lparr>update_count := 0\<rparr>\<rparr>))"

text \<open>
  The scatter loop \<^verbatim>\<open>workEdWtFull[basicIndex[i]] = workEdWt[i]\<close> and the gather
  loop \<^verbatim>\<open>workEdWt[i] = workEdWtFull[basicIndex[i]]\<close>, for \<open>i < numRow\<close>.
\<close>

definition scatterEdWt :: "nat \<Rightarrow> nat list \<Rightarrow> real list \<Rightarrow> real list \<Rightarrow> real list" where
  "scatterEdWt num_row bi wt full =
     foldl (\<lambda>fl i. fl[bi ! i := wt ! i]) full [0..<num_row]"

definition gatherEdWt :: "nat \<Rightarrow> nat list \<Rightarrow> real list \<Rightarrow> real list \<Rightarrow> real list" where
  "gatherEdWt num_row bi full wt =
     foldl (\<lambda>w i. w[i := full ! (bi ! i)]) wt [0..<num_row]"

text \<open>The copy loop \<^verbatim>\<open>dst[iVar] = src[iVar]\<close> for \<open>iVar < num_tot\<close>.\<close>

definition copyPrefix :: "nat \<Rightarrow> real list \<Rightarrow> real list \<Rightarrow> real list" where
  "copyPrefix num_tot src dst = foldl (\<lambda>d i. d[i := src ! i]) dst [0..<num_tot]"

text \<open>
  \<^verbatim>\<open>HEkk::getBacktrackingBasis(scattered_edge_weights)\<close>, called with
  \<^verbatim>\<open>workEdWtFull\<close>: fails when no snapshot is valid, otherwise restores the basis,
  the perturbation flag, the shifts and (when the buffer is not NULL) the edge weights.
\<close>

definition getBacktrackingBasis :: "'f HEkk \<Rightarrow> bool \<times> 'f HEkk" where
  "getBacktrackingBasis s =
    (let info = simplex_info s; work = simplex_work s in
     if \<not> valid_backtracking_basis info then (False, s)
     else
       let num_tot = numCol (simplex_lp s) + numRow (simplex_lp s)
       in (True,
           s\<lparr>simplex_basis := backtracking_basis work,
             simplex_info := info\<lparr>costs_perturbed := backtracking_basis_costs_perturbed info\<rparr>,
             simplex_work := work\<lparr>workShift := backtracking_basis_workShift work\<rparr>,
             workEdWtFull :=
               map_option (copyPrefix num_tot (backtracking_basis_edge_weights work))
                 (workEdWtFull s)\<rparr>))"

text \<open>
  \<^verbatim>\<open>HEkk::putBacktrackingBasis(basicIndex_before_compute_factor,
  scattered_edge_weights)\<close>, called with \<^verbatim>\<open>workEdWtFull_\<close>.
\<close>

definition putBacktrackingBasis :: "nat list \<Rightarrow> 'f HEkk \<Rightarrow> 'f HEkk" where
  "putBacktrackingBasis basicIndex_before_compute_factor s =
    (let info = simplex_info s; work = simplex_work s;
         num_tot = numCol (simplex_lp s) + numRow (simplex_lp s)
     in s\<lparr>simplex_info :=
            info\<lparr>valid_backtracking_basis := True,
                 backtracking_basis_costs_perturbed := costs_perturbed info\<rparr>,
          simplex_work :=
            work\<lparr>backtracking_basis :=
                   (simplex_basis s)\<lparr>basicIndex := basicIndex_before_compute_factor\<rparr>,
                 backtracking_basis_workShift := workShift work,
                 backtracking_basis_edge_weights :=
                   (case workEdWtFull s of
                      None \<Rightarrow> backtracking_basis_edge_weights work
                    | Some full \<Rightarrow>
                        copyPrefix num_tot full (backtracking_basis_edge_weights work))\<rparr>\<rparr>)"

text \<open>
  The final gather of \<^verbatim>\<open>HEkk::getNonsingularInverse\<close>, done when
  \<^verbatim>\<open>workEdWt\<close> is not NULL.
\<close>

definition gatherEdgeWeights :: "'f HEkk \<Rightarrow> 'f HEkk" where
  "gatherEdgeWeights s =
    (case (workEdWt s, workEdWtFull s) of
       (Some wt, Some full) \<Rightarrow>
         s\<lparr>workEdWt :=
             Some (gatherEdWt (numRow (simplex_lp s)) (basicIndex (simplex_basis s)) full wt)\<rparr>
     | _ \<Rightarrow> s)"

definition scatterEdgeWeights :: "'f HEkk \<Rightarrow> 'f HEkk" where
  "scatterEdgeWeights s =
    (case (workEdWt s, workEdWtFull s) of
       (Some wt, Some full) \<Rightarrow>
         s\<lparr>workEdWtFull :=
             Some (scatterEdWt (numRow (simplex_lp s)) (basicIndex (simplex_basis s)) wt full)\<rparr>
     | _ \<Rightarrow> s)"

text \<open>
  \<^verbatim>\<open>HEkk::getNonsingularInverse\<close>.  The constant
  \<^verbatim>\<open>artificial_rank_deficiency\<close> is \<^verbatim>\<open>false\<close> in the source, so the test
  branch that fakes a rank deficiency is dead and the solve phase argument is unused.
  The C++ division \<^verbatim>\<open>simplex_update_count / 2\<close> is only reached with a count
  above 1, where it agrees with \<open>div\<close>.
\<close>

definition getNonsingularInverse :: "'f Collab \<Rightarrow> 'f HEkk \<Rightarrow> bool \<times> 'f HEkk" where
  "getNonsingularInverse cb s =
    (let basicIndex_before_compute_factor = basicIndex (simplex_basis s);
         simplex_update_count = update_count (simplex_info s);
         s0 = scatterEdgeWeights s;
         (rank_deficiency, s1) = computeFactor cb s0
     in if rank_deficiency \<noteq> 0 then
          (case getBacktrackingBasis s1 of
             (False, s2) \<Rightarrow> (False, s2)
           | (True, s2) \<Rightarrow>
               let s3 = s2\<lparr>simplex_info := (simplex_info s2)\<lparr>backtracking := True\<rparr>,
                          simplex_lp_status :=
                            updateSimplexLpStatus cb (simplex_lp_status s2) kBacktracking\<rparr>;
                   (backtrack_rank_deficiency, s4) = computeFactor cb s3
               in if backtrack_rank_deficiency \<noteq> 0 then (False, s4)
                  else if simplex_update_count \<le> 1 then (False, s4)
                  else
                    let new_simplex_update_limit = simplex_update_count div 2;
                        s5 = s4\<lparr>simplex_info :=
                                  (simplex_info s4)\<lparr>update_limit := new_simplex_update_limit\<rparr>\<rparr>
                    in (True, gatherEdgeWeights s5))
        else
          let s2 = putBacktrackingBasis basicIndex_before_compute_factor s1;
              s3 = s2\<lparr>simplex_info :=
                        (simplex_info s2)\<lparr>backtracking := False,
                                            update_limit := simplex_update_limit (options s2)\<rparr>\<rparr>
          in (True, gatherEdgeWeights s3))"

section \<open>Reading the solution off the engine\<close>

record HighsSolution =
  col_value :: "real list"
  col_dual :: "real list"
  row_value :: "real list"
  row_dual :: "real list"

text \<open>
  The loops \<^verbatim>\<open>a[basicIndex_[iRow]] = val(iRow)\<close> for \<open>iRow < numRow_\<close> that
  scatter the basic primal values into \<^verbatim>\<open>workValue_\<close> and zero the basic
  duals in \<^verbatim>\<open>workDual_\<close>.
\<close>

definition scatterBasic :: "nat \<Rightarrow> nat list \<Rightarrow> (nat \<Rightarrow> real) \<Rightarrow> real list \<Rightarrow> real list" where
  "scatterBasic num_row bi val xs = foldl (\<lambda>w iRow. w[bi ! iRow := val iRow]) xs [0..<num_row]"

text \<open>
  \<^verbatim>\<open>HEkk::getSolution\<close>.  It writes to the work arrays before it reads them, so
  the model returns the engine too.
\<close>

definition getSolution :: "'f HEkk \<Rightarrow> HighsSolution \<times> 'f HEkk" where
  "getSolution s =
    (let lp = simplex_lp s; bi = basicIndex (simplex_basis s); work = simplex_work s;
         wv = scatterBasic (numRow lp) bi (\<lambda>iRow. baseValue work ! iRow) (workValue work);
         wd = scatterBasic (numRow lp) bi (\<lambda>iRow. 0) (workDual work);
         sol0 = \<lparr>col_value = resize (numCol lp) 0 [], col_dual = resize (numCol lp) 0 [],
                 row_value = resize (numRow lp) 0 [], row_dual = resize (numRow lp) 0 []\<rparr>;
         sol1 = foldl (\<lambda>sol iCol.
                   sol\<lparr>col_value := (col_value sol)[iCol := wv ! iCol],
                       col_dual := (col_dual sol)[iCol := sense_int (sense lp) * wd ! iCol]\<rparr>)
                 sol0 [0..<numCol lp];
         sol2 = foldl (\<lambda>sol iRow.
                   sol\<lparr>row_value := (row_value sol)[iRow := - wv ! (numCol lp + iRow)],
                       row_dual := (row_dual sol)
                          [iRow := sense_int (sense lp) * wd ! (numCol lp + iRow)]\<rparr>)
                 sol1 [0..<numRow lp]
     in (sol2, s\<lparr>simplex_work := work\<lparr>workValue := wv, workDual := wd\<rparr>\<rparr>))"

text \<open>
  What \<^verbatim>\<open>getSolution\<close> needs of the engine it is called on: the basic index array
  has one entry per row, without repeats and within the \<open>numCol_ + numRow_\<close>
  variables, and the work and base arrays are allocated.
\<close>

definition work_arrays_ok :: "'f HEkk \<Rightarrow> bool" where
  "work_arrays_ok s \<longleftrightarrow>
     (let lp = simplex_lp s; bi = basicIndex (simplex_basis s); work = simplex_work s;
          num_tot = numCol lp + numRow lp
      in length bi = numRow lp \<and> distinct bi \<and> list_all (\<lambda>v. v < num_tot) bi \<and>
         length (workValue work) = num_tot \<and> length (workDual work) = num_tot \<and>
         length (baseValue work) = numRow lp)"

section \<open>Correcting dual infeasibilities by flips and cost shifts\<close>

text \<open>
  \<^verbatim>\<open>HEkk::flipBound\<close>: negate the move and put the value at the bound the new
  move selects.
\<close>

definition flipBound :: "nat \<Rightarrow> 'f HEkk \<Rightarrow> 'f HEkk" where
  "flipBound iCol s =
    (let b = simplex_basis s; work = simplex_work s;
         move = - (nonbasicMove b ! iCol)
     in s\<lparr>simplex_basis := b\<lparr>nonbasicMove := (nonbasicMove b)[iCol := move]\<rparr>,
          simplex_work :=
            work\<lparr>workValue := (workValue work)
               [iCol := (if move = 1 then workLower work ! iCol else workUpper work ! iCol)]\<rparr>\<rparr>)"

text \<open>The local accumulators of \<^verbatim>\<open>HEkk::correctDual\<close>.\<close>

record CorrectDualLocals =
  workCount :: int
  flip_dual_objective_value_change :: real
  shift_dual_objective_value_change :: real
  num_flip :: int
  num_shift :: int
  sum_flip :: real
  sum_shift :: real
  num_shift_skipped :: int

text \<open>
  The body of the loop of \<^verbatim>\<open>correctDual\<close> for variable \<open>i\<close>, on the
  engine and the accumulators; \<open>tau_d\<close> is the dual feasibility tolerance read
  before the loop.
\<close>

definition correctDual_body :: "'f Collab \<Rightarrow> real \<Rightarrow> 'f HEkk \<times> CorrectDualLocals \<Rightarrow> nat
    \<Rightarrow> 'f HEkk \<times> CorrectDualLocals" where
  "correctDual_body cb tau_d st i =
    (let s = fst st; acc = snd st; b = simplex_basis s; work = simplex_work s; inf = kHighsInf cb in
     if nonbasicFlag b ! i \<noteq> 0 then
       if workLower work ! i = - inf \<and> workUpper work ! i = inf then
         (s, acc\<lparr>workCount := workCount acc + (if tau_d \<le> \<bar>workDual work ! i\<bar> then 1 else 0)\<rparr>)
       else if real_of_int (nonbasicMove b ! i) * workDual work ! i \<le> - tau_d then
         if workLower work ! i \<noteq> - inf \<and> workUpper work ! i \<noteq> inf then
           let move = nonbasicMove b ! i;
               s1 = flipBound i s;
               flip = workUpper (simplex_work s1) ! i - workLower (simplex_work s1) ! i;
               local_dual_objective_change =
                 real_of_int move * flip * workDual (simplex_work s1) ! i * cost_scale s1
           in (s1, acc\<lparr>flip_dual_objective_value_change :=
                          flip_dual_objective_value_change acc + local_dual_objective_change,
                        num_flip := num_flip acc + 1,
                        sum_flip := sum_flip acc + \<bar>flip\<bar>\<rparr>)
         else if allow_cost_perturbation (simplex_info s) then
           let (r, rs) = random_fraction cb (random_state s);
               dual = (if nonbasicMove b ! i = 1 then (1 + r) * tau_d else - (1 + r) * tau_d);
               shift = dual - workDual work ! i;
               s1 = s\<lparr>simplex_info := (simplex_info s)\<lparr>costs_perturbed := 1\<rparr>,
                      random_state := rs,
                      simplex_work :=
                        work\<lparr>workDual := (workDual work)[i := dual],
                             workCost := (workCost work)[i := workCost work ! i + shift]\<rparr>\<rparr>;
               local_dual_objective_change = shift * workValue work ! i * cost_scale s
           in (s1, acc\<lparr>shift_dual_objective_value_change :=
                          shift_dual_objective_value_change acc + local_dual_objective_change,
                        num_shift := num_shift acc + 1,
                        sum_shift := sum_shift acc + \<bar>shift\<bar>\<rparr>)
         else (s, acc\<lparr>num_shift_skipped := num_shift_skipped acc + 1\<rparr>)
       else (s, acc)
     else (s, acc))"

text \<open>The loop over all \<open>numCol_ + numRow_\<close> variables.\<close>

definition correctDual_loop :: "'f Collab \<Rightarrow> 'f HEkk \<Rightarrow> 'f HEkk \<times> CorrectDualLocals" where
  "correctDual_loop cb s =
     foldl (correctDual_body cb (dual_feasibility_tolerance (options s)))
       (s, \<lparr>workCount = 0, flip_dual_objective_value_change = 0,
            shift_dual_objective_value_change = 0, num_flip = 0, num_shift = 0,
            sum_flip = 0, sum_shift = 0, num_shift_skipped = 0\<rparr>)
       [0..<numCol (simplex_lp s) + numRow (simplex_lp s)]"

text \<open>
  \<^verbatim>\<open>HEkk::correctDual\<close>: it fails when a cost shift was needed but not
  permitted, and writes the count of infeasible free variables only when it succeeds.
\<close>

definition correctDual :: "'f Collab \<Rightarrow> 'f HEkk \<Rightarrow> bool \<times> int option \<times> 'f HEkk" where
  "correctDual cb s =
    (let (s', acc) = correctDual_loop cb s in
     if num_shift_skipped acc \<noteq> 0 then (False, None, s')
     else (True, Some (workCount acc), s'))"

section \<open>Initialising the working costs\<close>

text \<open>
  \<^verbatim>\<open>HEkk::initialiseLpColCost\<close> and \<^verbatim>\<open>HEkk::initialiseLpRowCost\<close>: the
  costs of the LP, signed by the objective sense, for the columns and zero for the
  slacks.
\<close>

definition initialiseLpColCost :: "'f HEkk \<Rightarrow> 'f HEkk" where
  "initialiseLpColCost s =
    (let lp = simplex_lp s in
     s\<lparr>simplex_work :=
         foldl (\<lambda>work iCol.
                  work\<lparr>workCost := (workCost work)
                           [iCol := sense_int (sense lp) * colCost lp ! iCol],
                       workShift := (workShift work)[iCol := 0]\<rparr>)
           (simplex_work s) [0..<numCol lp]\<rparr>)"

definition initialiseLpRowCost :: "'f HEkk \<Rightarrow> 'f HEkk" where
  "initialiseLpRowCost s =
    (let lp = simplex_lp s in
     s\<lparr>simplex_work :=
         foldl (\<lambda>work iCol.
                  work\<lparr>workCost := (workCost work)[iCol := 0],
                       workShift := (workShift work)[iCol := 0]\<rparr>)
           (simplex_work s) [numCol lp..<numCol lp + numRow lp]\<rparr>)"

text \<open>
  The perturbation base that \<^verbatim>\<open>HEkk::initialiseCost\<close> computes in its local
  variables \<^verbatim>\<open>bigc\<close>, \<^verbatim>\<open>boxedRate\<close> and \<^verbatim>\<open>base\<close>, from the working
  costs and ranges.
\<close>

definition cost_perturbation_base :: "'f HEkk \<Rightarrow> real" where
  "cost_perturbation_base s =
    (let lp = simplex_lp s; work = simplex_work s;
         bigc0 = foldl (\<lambda>bigc i. max bigc \<bar>workCost work ! i\<bar>) 0 [0..<numCol lp];
         bigc1 = (if 100 < bigc0 then sqrt (sqrt bigc0) else bigc0);
         num_tot = numCol lp + numRow lp;
         boxedRate = foldl (\<lambda>rate i. rate + (if workRange work ! i < 10 ^ 30 then 1 else 0))
                       0 [0..<num_tot] / real num_tot;
         bigc2 = (if boxedRate < 1 / 100 then min bigc1 1 else bigc1)
     in 5 / 10 ^ 7 * bigc2)"

text \<open>
  The two perturbation loops of \<^verbatim>\<open>initialiseCost\<close>, over the columns and over the
  slacks, and the final \<^verbatim>\<open>costs_perturbed = 1\<close>.
\<close>

definition perturbCosts :: "'f Collab \<Rightarrow> real \<Rightarrow> 'f HEkk \<Rightarrow> 'f HEkk" where
  "perturbCosts cb base s =
    (let lp = simplex_lp s; info = simplex_info s; inf = kHighsInf cb;
         mult = dual_simplex_cost_perturbation_multiplier info;
         num_tot = numCol lp + numRow lp;
         work1 = foldl (\<lambda>work i.
                   let lower = colLower lp ! i; upper = colUpper lp ! i;
                       xpert = (\<bar>workCost work ! i\<bar> + 1) * base * mult *
                               (1 + numTotRandomValue work ! i)
                   in if lower \<le> - inf \<and> inf \<le> upper then work
                      else if inf \<le> upper then
                        work\<lparr>workCost := (workCost work)[i := workCost work ! i + xpert]\<rparr>
                      else if lower \<le> - inf then
                        work\<lparr>workCost := (workCost work)[i := workCost work ! i + - xpert]\<rparr>
                      else if lower \<noteq> upper then
                        work\<lparr>workCost := (workCost work)
                          [i := workCost work ! i + (if 0 \<le> workCost work ! i then xpert else - xpert)]\<rparr>
                      else work)
                 (simplex_work s) [0..<numCol lp];
         work2 = foldl (\<lambda>work i.
                   let perturbation2 = (1 / 2 - numTotRandomValue work ! i) * mult * (1 / 10 ^ 12)
                   in work\<lparr>workCost := (workCost work)[i := workCost work ! i + perturbation2]\<rparr>)
                 work1 [numCol lp..<num_tot]
     in s\<lparr>simplex_work := work2, simplex_info := info\<lparr>costs_perturbed := 1\<rparr>\<rparr>)"

text \<open>The first three statements of \<^verbatim>\<open>initialiseCost\<close>.\<close>

definition initialiseLpCosts :: "'f HEkk \<Rightarrow> 'f HEkk" where
  "initialiseLpCosts s =
    (let s1 = initialiseLpRowCost (initialiseLpColCost s)
     in s1\<lparr>simplex_info := (simplex_info s1)\<lparr>costs_perturbed := 0\<rparr>\<rparr>)"

text \<open>
  \<^verbatim>\<open>HEkk::initialiseCost\<close>.  On the perturbation path the source divides the
  integer \<^verbatim>\<open>100 * num_original_nonzero_cost\<close> by \<^verbatim>\<open>numCol_\<close>; with no columns
  that is a division by zero, which the model returns as \<open>None\<close>.
\<close>

definition initialiseCost :: "'f Collab \<Rightarrow> SimplexAlgorithm \<Rightarrow> int \<Rightarrow> bool \<Rightarrow> 'f HEkk
    \<Rightarrow> 'f HEkk option" where
  "initialiseCost cb algorithm solvePhase perturb s =
    (let s2 = initialiseLpCosts s
     in if algorithm = kPrimal then Some s2
        else if \<not> perturb \<or> dual_simplex_cost_perturbation_multiplier (simplex_info s2) = 0
        then Some s2
        else if numCol (simplex_lp s2) = 0 then None
        else Some (perturbCosts cb (cost_perturbation_base s2) s2))"

section \<open>Data model of the interface layer (lp_data/HighsInterface.cpp)\<close>

text \<open>
  HighsInterface.cpp is of a later revision than HEkk.cpp: it calls the engine's
  members \<^verbatim>\<open>simplex_basis_\<close>, \<^verbatim>\<open>simplex_lp_status_\<close> and
  \<^verbatim>\<open>simplex_info_\<close> by their later names \<^verbatim>\<open>basis_\<close>, \<^verbatim>\<open>status_\<close> and
  \<^verbatim>\<open>info_\<close>, and the LP's members \<^verbatim>\<open>num_col_\<close>, \<^verbatim>\<open>col_cost_\<close> and so
  on.  The interface's LP is a record of its own; the engine object is the one of the
  first part.
\<close>

datatype MatrixFormat = kColwise | kRowwise

text \<open>
  \<^verbatim>\<open>HighsSparseMatrix\<close>.  Its members \<^verbatim>\<open>num_col_\<close>, \<^verbatim>\<open>num_row_\<close>,
  \<^verbatim>\<open>start_\<close>, \<^verbatim>\<open>index_\<close> and \<^verbatim>\<open>value_\<close> carry a prefix here.  Starts
  and indices are what the caller passes, so they are integers.
\<close>

record HighsSparseMatrix =
  format :: MatrixFormat
  m_num_col :: nat
  m_num_row :: nat
  a_start :: "int list"
  a_index :: "int list"
  a_value :: "real list"

record HighsScale =
  has_scaling :: bool
  scale_num_col :: nat
  scale_num_row :: nat
  scale_col :: "real list"
  scale_row :: "real list"

record HighsLp =
  num_col :: nat
  num_row :: nat
  col_cost :: "real list"
  col_lower :: "real list"
  col_upper :: "real list"
  row_lower :: "real list"
  row_upper :: "real list"
  a_matrix :: HighsSparseMatrix
  scale :: HighsScale
  user_bound_scale :: int
  user_cost_scale :: int
  has_infinite_cost :: bool


text \<open>
  The \<^verbatim>\<open>Highs\<close> object: \<^verbatim>\<open>model_.lp_\<close>, \<^verbatim>\<open>basis_\<close>,
  \<^verbatim>\<open>ekk_instance_\<close>, \<^verbatim>\<open>model_status_\<close>, \<^verbatim>\<open>options_\<close>, and the validity
  of \<^verbatim>\<open>solution_\<close> and \<^verbatim>\<open>info_\<close>.
\<close>

record 'f Highs =
  model_lp :: HighsLp
  basis :: HighsBasis
  ekk_instance :: "'f HEkk"
  model_status :: HighsModelStatus
  highs_options :: HighsOptions
  solution_value_valid :: bool
  solution_dual_valid :: bool
  info_valid :: bool

text \<open>
  The collaborators of the interface whose code is not in HighsInterface.cpp, as
  parameters: the assessors of costs and bounds (they return a status and the
  normalised vectors), the checks of user scaling, the operations of
  \<^verbatim>\<open>HighsSparseMatrix\<close> that append and scale, the naming of new columns and
  rows, and the verbs the engine reacts to.
\<close>

record 'f IfaceCollab =
  assessCosts :: "HighsOptions \<Rightarrow> nat \<Rightarrow> real list \<Rightarrow> HighsStatus \<times> real list \<times> bool"
  assessBounds :: "HighsOptions \<Rightarrow> nat \<Rightarrow> real list \<Rightarrow> real list
                    \<Rightarrow> HighsStatus \<times> real list \<times> real list"
  boundScaleOk :: "real list \<Rightarrow> real list \<Rightarrow> int \<Rightarrow> real \<Rightarrow> bool"
  costScaleOk :: "real list \<Rightarrow> int \<Rightarrow> real \<Rightarrow> bool"
  matrix_addCols :: "HighsSparseMatrix \<Rightarrow> HighsSparseMatrix \<Rightarrow> HighsSparseMatrix"
  matrix_addRows :: "HighsSparseMatrix \<Rightarrow> HighsSparseMatrix \<Rightarrow> HighsSparseMatrix"
  applyRowScale :: "HighsScale \<Rightarrow> HighsSparseMatrix \<Rightarrow> HighsSparseMatrix"
  applyColScale :: "HighsScale \<Rightarrow> HighsSparseMatrix \<Rightarrow> HighsSparseMatrix"
  considerColScaling :: "int \<Rightarrow> HighsSparseMatrix \<Rightarrow> HighsSparseMatrix \<times> real list"
  considerRowScaling :: "int \<Rightarrow> HighsSparseMatrix \<Rightarrow> HighsSparseMatrix \<times> real list"
  addColNames :: "nat \<Rightarrow> HighsLp \<Rightarrow> HighsLp"
  addRowNames :: "nat \<Rightarrow> HighsLp \<Rightarrow> HighsLp"
  ekk_addCols :: "HighsLp \<Rightarrow> HighsSparseMatrix \<Rightarrow> 'f HEkk \<Rightarrow> 'f HEkk"
  ekk_addRows :: "HighsLp \<Rightarrow> HighsSparseMatrix \<Rightarrow> 'f HEkk \<Rightarrow> 'f HEkk"
  ekk_updateStatus :: "LpAction \<Rightarrow> 'f HEkk \<Rightarrow> 'f HEkk"
  ekk_setNlaRefactorInfo :: "'f HEkk \<Rightarrow> 'f HEkk"

text \<open>
  Modelled from the spec: \<^verbatim>\<open>invalidateModelStatusSolutionAndInfo\<close> (in Highs.cpp,
  not among the sources).  On a mutation the model status reverts to NotSet and the
  solution and the derived info are marked invalid.
\<close>

definition invalidateModelStatusSolutionAndInfo :: "'f Highs \<Rightarrow> 'f Highs" where
  "invalidateModelStatusSolutionAndInfo h =
     h\<lparr>model_status := kNotset, solution_value_valid := False,
       solution_dual_valid := False, info_valid := False\<rparr>"

text \<open>
  Modelled from the spec: \<^verbatim>\<open>appendColsToLpVectors\<close> and
  \<^verbatim>\<open>appendRowsToLpVectors\<close> (in HighsLpUtils.cpp, not among the sources) append
  the new costs and bounds to the vectors of the LP; the dimensions are left to the
  caller.
\<close>

definition appendColsToLpVectors :: "real list \<Rightarrow> real list \<Rightarrow> real list \<Rightarrow> HighsLp \<Rightarrow> HighsLp" where
  "appendColsToLpVectors colCost' colLower' colUpper' l =
     l\<lparr>col_cost := col_cost l @ colCost', col_lower := col_lower l @ colLower',
       col_upper := col_upper l @ colUpper'\<rparr>"

definition appendRowsToLpVectors :: "real list \<Rightarrow> real list \<Rightarrow> HighsLp \<Rightarrow> HighsLp" where
  "appendRowsToLpVectors rowLower' rowUpper' l =
     l\<lparr>row_lower := row_lower l @ rowLower', row_upper := row_upper l @ rowUpper'\<rparr>"

text \<open>
  Modelled from the spec: \<^verbatim>\<open>HighsSparseMatrix::assess\<close> (not among the sources).
  The assess operation validates that no vector of the matrix (a column of a
  column-wise matrix, a row of a row-wise one) has a duplicate index, that the indices
  are within the other dimension, and that no value exceeds
  \<open>large_matrix_value\<close> in magnitude; entries with magnitude at most
  \<open>small_matrix_value\<close> are dropped.
\<close>

definition vector_entries :: "HighsSparseMatrix \<Rightarrow> nat \<Rightarrow> (int \<times> real) list" where
  "vector_entries m k =
     (let from_el = nat (a_start m ! k); to_el = nat (a_start m ! Suc k)
      in map (\<lambda>el. (a_index m ! el, a_value m ! el)) [from_el..<to_el])"

definition assess :: "real \<Rightarrow> real \<Rightarrow> HighsSparseMatrix \<Rightarrow> HighsStatus \<times> HighsSparseMatrix" where
  "assess small large m =
    (let num_vec = (case format m of kColwise \<Rightarrow> m_num_col m | kRowwise \<Rightarrow> m_num_row m);
         vec_dim = (case format m of kColwise \<Rightarrow> m_num_row m | kRowwise \<Rightarrow> m_num_col m);
         vecs = map (vector_entries m) [0..<num_vec];
         legal = (\<lambda>v. distinct (map fst v) \<and>
                       list_all (\<lambda>(i, x). 0 \<le> i \<and> i < int vec_dim \<and> \<bar>x\<bar> \<le> large) v)
     in if \<not> list_all legal vecs then (kError, m)
        else
          let kept = map (filter (\<lambda>(i, x). small < \<bar>x\<bar>)) vecs
          in (kOk,
              m\<lparr>a_start := map (\<lambda>k. int (length (concat (take k kept)))) [0..<Suc num_vec],
                a_index := map fst (concat kept),
                a_value := map snd (concat kept)\<rparr>))"

text \<open>
  The status and move that the interface gives a new nonbasic column
  (\<^verbatim>\<open>appendNonbasicColsToBasisInterface\<close>).
\<close>

definition newColStatusMove :: "'f Collab \<Rightarrow> real \<Rightarrow> real \<Rightarrow> HighsBasisStatus \<times> int" where
  "newColStatusMove cb lower upper =
    (if lower = upper then (kLower, kNonbasicMoveZe)
     else if \<not> highs_isInfinity cb (- lower) then
       (if \<not> highs_isInfinity cb upper then
          (if \<bar>lower\<bar> < \<bar>upper\<bar> then (kLower, kNonbasicMoveUp) else (kUpper, kNonbasicMoveDn))
        else (kLower, kNonbasicMoveUp))
     else if \<not> highs_isInfinity cb upper then (kUpper, kNonbasicMoveDn)
     else (kZero, kNonbasicMoveZe))"

text \<open>
  \<^verbatim>\<open>Highs::appendNonbasicColsToBasisInterface\<close>.  It runs before the LP's column
  count is increased, on the LP whose bound vectors already hold the new columns.  The
  first loop runs over the rows from the last to the first.
\<close>

definition appendNonbasicColsToBasisInterface :: "'f Collab \<Rightarrow> nat \<Rightarrow> 'f Highs \<Rightarrow> 'f Highs" where
  "appendNonbasicColsToBasisInterface cb ext_num_new_col h =
    (if \<not> valid (basis h) then h
     else if ext_num_new_col = 0 then h
     else
       let l = model_lp h; ekk = ekk_instance h;
           has_simplex_basis = has_basis (simplex_lp_status ekk);
           newNumCol = num_col l + ext_num_new_col;
           newNumTot = newNumCol + num_row l;
           cs0 = resize newNumCol kLower (col_status (basis h));
           sb0 = simplex_basis ekk;
           sb1 = (if has_simplex_basis then
                    foldl (\<lambda>sb iRow.
                       sb\<lparr>basicIndex :=
                            (if num_col l \<le> basicIndex sb ! iRow
                             then (basicIndex sb)[iRow := basicIndex sb ! iRow + ext_num_new_col]
                             else basicIndex sb),
                          nonbasicFlag := (nonbasicFlag sb)
                            [newNumCol + iRow := nonbasicFlag sb ! (num_col l + iRow)],
                          nonbasicMove := (nonbasicMove sb)
                            [newNumCol + iRow := nonbasicMove sb ! (num_col l + iRow)]\<rparr>)
                      (sb0\<lparr>nonbasicFlag := resize newNumTot 0 (nonbasicFlag sb0),
                           nonbasicMove := resize newNumTot 0 (nonbasicMove sb0)\<rparr>)
                      (rev [0..<num_row l])
                  else sb0);
           (cs2, sb2) =
             foldl (\<lambda>(cs, sb) iCol.
                let (status, move) = newColStatusMove cb (col_lower l ! iCol) (col_upper l ! iCol)
                in (cs[iCol := status],
                    if has_simplex_basis then
                      sb\<lparr>nonbasicFlag := (nonbasicFlag sb)[iCol := kNonbasicFlagTrue],
                         nonbasicMove := (nonbasicMove sb)[iCol := move]\<rparr>
                    else sb))
              (cs0, sb1) [num_col l..<newNumCol]
       in h\<lparr>basis := (basis h)\<lparr>col_status := cs2\<rparr>,
            ekk_instance := ekk\<lparr>simplex_basis := sb2\<rparr>\<rparr>)"

text \<open>
  \<^verbatim>\<open>Highs::appendBasicRowsToBasisInterface\<close>.  It runs before the LP's row count
  is increased.
\<close>

definition appendBasicRowsToBasisInterface :: "nat \<Rightarrow> 'f Highs \<Rightarrow> 'f Highs" where
  "appendBasicRowsToBasisInterface ext_num_new_row h =
    (if \<not> valid (basis h) then h
     else if ext_num_new_row = 0 then h
     else
       let l = model_lp h; ekk = ekk_instance h;
           has_simplex_basis = has_basis (simplex_lp_status ekk);
           newNumRow = num_row l + ext_num_new_row;
           rs = foldl (\<lambda>rs iRow. rs[iRow := kBasic])
                  (resize newNumRow kLower (row_status (basis h))) [num_row l..<newNumRow];
           sb0 = simplex_basis ekk;
           sb1 = (if has_simplex_basis then
                    let newNumTot = num_col l + newNumRow in
                    foldl (\<lambda>sb iRow.
                       sb\<lparr>nonbasicFlag := (nonbasicFlag sb)[num_col l + iRow := kNonbasicFlagFalse],
                          nonbasicMove := (nonbasicMove sb)[num_col l + iRow := 0],
                          basicIndex := (basicIndex sb)[iRow := num_col l + iRow]\<rparr>)
                      (sb0\<lparr>nonbasicFlag := resize newNumTot 0 (nonbasicFlag sb0),
                           nonbasicMove := resize newNumTot 0 (nonbasicMove sb0),
                           basicIndex := resize newNumRow 0 (basicIndex sb0)\<rparr>)
                      [num_row l..<newNumRow]
                  else sb0)
       in h\<lparr>basis := (basis h)\<lparr>row_status := rs\<rparr>,
            ekk_instance := ekk\<lparr>simplex_basis := sb1\<rparr>\<rparr>)"


text \<open>
  The row-wise or column-wise matrix that \<^verbatim>\<open>addRowsInterface\<close> and
  \<^verbatim>\<open>addColsInterface\<close> form from the caller's arrays when there are nonzeros:
  \<open>num_vec\<close> starts followed by the number of nonzeros, and that many indices and
  values.
\<close>

definition localMatrix :: "MatrixFormat \<Rightarrow> nat \<Rightarrow> nat \<Rightarrow> nat \<Rightarrow> nat
    \<Rightarrow> int list \<Rightarrow> int list \<Rightarrow> real list \<Rightarrow> HighsSparseMatrix" where
  "localMatrix fmt ncol nrow num_vec num_nz ext_start ext_index ext_value =
     \<lparr>format = fmt, m_num_col = ncol, m_num_row = nrow,
      a_start = (resize (Suc num_vec) 0 (take num_vec ext_start))[num_vec := int num_nz],
      a_index = take num_nz ext_index, a_value = take num_nz ext_value\<rparr>"

definition emptyMatrix :: "MatrixFormat \<Rightarrow> nat \<Rightarrow> nat \<Rightarrow> nat \<Rightarrow> HighsSparseMatrix" where
  "emptyMatrix fmt ncol nrow num_vec =
     \<lparr>format = fmt, m_num_col = ncol, m_num_row = nrow,
      a_start = replicate (Suc num_vec) 0, a_index = [], a_value = []\<rparr>"

text \<open>
  The user scaling of new bounds or costs: every entry is multiplied by
  \<^verbatim>\<open>pow(2, user_scale)\<close> when the exponent is not zero.  The product of an
  infinite double with this positive factor is the same infinity, so an entry at or
  beyond the infinite bound is left as it is.
\<close>

definition applyUserScale :: "'f Collab \<Rightarrow> int \<Rightarrow> real list \<Rightarrow> real list" where
  "applyUserScale cb user_scale xs =
     (if user_scale \<noteq> 0
      then map (\<lambda>x. if highs_isInfinity cb x \<or> highs_isInfinity cb (- x) then x
                     else x * (2 powi user_scale)) xs
      else xs)"

text \<open>
  The local matrix of the new columns or rows and the status of its assessment: with
  nonzeros it is formed from the caller's arrays and assessed, without it is empty.
\<close>

definition newMatrix :: "HighsOptions \<Rightarrow> MatrixFormat \<Rightarrow> nat \<Rightarrow> nat \<Rightarrow> nat \<Rightarrow> nat
    \<Rightarrow> int list option \<Rightarrow> int list option \<Rightarrow> real list option
    \<Rightarrow> HighsStatus \<Rightarrow> HighsStatus \<times> HighsSparseMatrix" where
  "newMatrix opts fmt ncol nrow num_vec num_nz ext_start ext_index ext_value return_status =
     (if num_nz \<noteq> 0 then
        let (matrix_status, m) =
              assess (small_matrix_value opts) (large_matrix_value opts)
                (localMatrix fmt ncol nrow num_vec num_nz
                   (case ext_start of Some x \<Rightarrow> x | None \<Rightarrow> [])
                   (case ext_index of Some x \<Rightarrow> x | None \<Rightarrow> [])
                   (case ext_value of Some x \<Rightarrow> x | None \<Rightarrow> []))
        in (interpretCallStatus matrix_status return_status, m)
      else (return_status, emptyMatrix fmt ncol nrow num_vec))"

text \<open>
  The block \<^verbatim>\<open>if (lp_has_scaling)\<close> of \<^verbatim>\<open>addColsInterface\<close>: the column
  scale factors are extended by ones, the row scaling is applied to the new columns
  and a column scaling of them is considered.  It returns the LP and the scaled local
  matrix.
\<close>

definition extendColScale :: "'f IfaceCollab \<Rightarrow> HighsOptions \<Rightarrow> nat \<Rightarrow> HighsLp
    \<Rightarrow> HighsSparseMatrix \<Rightarrow> HighsLp \<times> HighsSparseMatrix" where
  "extendColScale ic opts n l local_a_matrix =
    (let sc = scale l in
     if has_scaling sc then
       let newNumCol = num_col l + n;
           sc1 = sc\<lparr>scale_col := foldl (\<lambda>c iCol. c[num_col l + iCol := 1])
                                 (resize newNumCol 0 (scale_col sc)) [0..<n],
                   scale_num_col := newNumCol\<rparr>;
           m1 = applyRowScale ic sc1 local_a_matrix;
           (m2, factors) = considerColScaling ic (allowed_matrix_scale_factor opts) m1;
           sc2 = sc1\<lparr>scale_col := foldl (\<lambda>c iCol. c[num_col l + iCol := factors ! iCol])
                                  (scale_col sc1) [0..<n]\<rparr>
       in (l\<lparr>scale := sc2\<rparr>, m2)
     else (l, local_a_matrix))"

text \<open>The same block of \<^verbatim>\<open>addRowsInterface\<close>, for the row scale factors.\<close>

definition extendRowScale :: "'f IfaceCollab \<Rightarrow> HighsOptions \<Rightarrow> nat \<Rightarrow> HighsLp
    \<Rightarrow> HighsSparseMatrix \<Rightarrow> HighsLp \<times> HighsSparseMatrix" where
  "extendRowScale ic opts n l local_ar_matrix =
    (let sc = scale l in
     if has_scaling sc then
       let newNumRow = num_row l + n;
           sc1 = sc\<lparr>scale_row := foldl (\<lambda>c iRow. c[num_row l + iRow := 1])
                                 (resize newNumRow 0 (scale_row sc)) [0..<n],
                   scale_num_row := newNumRow\<rparr>;
           m1 = applyColScale ic sc1 local_ar_matrix;
           (m2, factors) = considerRowScaling ic (allowed_matrix_scale_factor opts) m1;
           sc2 = sc1\<lparr>scale_row := foldl (\<lambda>c iRow. c[num_row l + iRow := factors ! iRow])
                                  (scale_row sc1) [0..<n]\<rparr>
       in (l\<lparr>scale := sc2\<rparr>, m2)
     else (l, local_ar_matrix))"

text \<open>
  The end of \<^verbatim>\<open>addColsInterface\<close>, from
  \<^verbatim>\<open>lp.a_matrix_.addCols(local_a_matrix)\<close> on: the matrix is extended, the scale
  factors and the basis follow, the names and the column count are updated, and the
  engine is notified.
\<close>

definition addColsCommit :: "'f Collab \<Rightarrow> 'f IfaceCollab \<Rightarrow> nat \<Rightarrow> bool \<Rightarrow> HighsSparseMatrix
    \<Rightarrow> 'f Highs \<Rightarrow> 'f Highs" where
  "addColsCommit cb ic n local_has_infinite_cost local_a_matrix h1 =
    (let l1 = model_lp h1;
         l2 = l1\<lparr>a_matrix := matrix_addCols ic (a_matrix l1) local_a_matrix\<rparr>;
         (l3, scaled_a_matrix) = extendColScale ic (highs_options h1) n l2 local_a_matrix;
         h2 = h1\<lparr>model_lp := l3\<rparr>;
         h3 = (if valid (basis h2) then appendNonbasicColsToBasisInterface cb n h2 else h2);
         l4 = addColNames ic n (model_lp h3);
         l5 = l4\<lparr>num_col := num_col l4 + n\<rparr>;
         l6 = l5\<lparr>has_infinite_cost := has_infinite_cost l5 \<or> local_has_infinite_cost\<rparr>;
         h4 = invalidateModelStatusSolutionAndInfo (h3\<lparr>model_lp := l6\<rparr>)
     in h4\<lparr>ekk_instance := ekk_addCols ic l6 scaled_a_matrix (ekk_instance h4)\<rparr>)"

text \<open>
  The end of \<^verbatim>\<open>addRowsInterface\<close>, from
  \<^verbatim>\<open>lp.a_matrix_.addRows(local_ar_matrix)\<close> on.
\<close>

definition addRowsCommit :: "'f IfaceCollab \<Rightarrow> nat \<Rightarrow> HighsSparseMatrix \<Rightarrow> 'f Highs \<Rightarrow> 'f Highs" where
  "addRowsCommit ic n local_ar_matrix h1 =
    (let l1 = model_lp h1;
         l2 = l1\<lparr>a_matrix := matrix_addRows ic (a_matrix l1) local_ar_matrix\<rparr>;
         (l3, scaled_ar_matrix) = extendRowScale ic (highs_options h1) n l2 local_ar_matrix;
         h2 = h1\<lparr>model_lp := l3\<rparr>;
         h3 = (if valid (basis h2) then appendBasicRowsToBasisInterface n h2 else h2);
         l4 = addRowNames ic n (model_lp h3);
         l5 = l4\<lparr>num_row := num_row l4 + n\<rparr>;
         h4 = invalidateModelStatusSolutionAndInfo (h3\<lparr>model_lp := l5\<rparr>)
     in h4\<lparr>ekk_instance := ekk_addRows ic l5 scaled_ar_matrix (ekk_instance h4)\<rparr>)"

text \<open>
  \<^verbatim>\<open>Highs::addColsInterface\<close>, after its checks of the counts and of the
  pointers: the costs and bounds are copied (the first \<open>n\<close> entries), assessed and
  scaled, the LP vectors are extended, the local matrix is formed and assessed, and
  the columns are committed.
\<close>

definition addColsChecked :: "'f Collab \<Rightarrow> 'f IfaceCollab \<Rightarrow> nat \<Rightarrow> real list \<Rightarrow> real list
    \<Rightarrow> real list \<Rightarrow> nat \<Rightarrow> int list option \<Rightarrow> int list option \<Rightarrow> real list option
    \<Rightarrow> 'f Highs \<Rightarrow> HighsStatus \<times> 'f Highs" where
  "addColsChecked cb ic n cost lower upper nz ext_a_start ext_a_index ext_a_value h =
    (let l = model_lp h; opts = highs_options h;
         (cost_status, local_colCost, local_has_infinite_cost) =
           assessCosts ic opts (num_col l) (take n cost);
         return_status1 = interpretCallStatus cost_status kOk
     in if return_status1 = kError then (return_status1, h)
        else
          let (bound_status, local_colLower, local_colUpper) =
                assessBounds ic opts (num_col l) (take n lower) (take n upper);
              return_status2 = interpretCallStatus bound_status return_status1
          in if return_status2 = kError then (return_status2, h)
             else if user_bound_scale l \<noteq> 0 \<and>
                     \<not> boundScaleOk ic local_colLower local_colUpper
                         (user_bound_scale l) (infinite_bound opts)
             then (kError, h)
             else if user_cost_scale l \<noteq> 0 \<and>
                     \<not> costScaleOk ic local_colCost (user_cost_scale l) (infinite_cost opts)
             then (kError, h)
             else
               let l1 = appendColsToLpVectors
                          (applyUserScale cb (user_cost_scale l) local_colCost)
                          (applyUserScale cb (user_bound_scale l) local_colLower)
                          (applyUserScale cb (user_bound_scale l) local_colUpper) l;
                   h1 = h\<lparr>model_lp := l1\<rparr>;
                   (return_status3, local_a_matrix) =
                     newMatrix opts kColwise n (num_row l1) n nz
                       ext_a_start ext_a_index ext_a_value return_status2
               in if nz \<noteq> 0 \<and> return_status3 = kError then (return_status3, h1)
                  else (return_status3,
                        addColsCommit cb ic n local_has_infinite_cost local_a_matrix h1))"

text \<open>
  \<^verbatim>\<open>Highs::addColsInterface\<close>.  A null pointer is \<open>None\<close>; the tests
  \<^verbatim>\<open>isColDataNull\<close> and \<^verbatim>\<open>isMatrixDataNull\<close> are the \<open>None\<close> cases.
\<close>

definition addColsInterface :: "'f Collab \<Rightarrow> 'f IfaceCollab \<Rightarrow> int \<Rightarrow> real list option
    \<Rightarrow> real list option \<Rightarrow> real list option \<Rightarrow> int \<Rightarrow> int list option \<Rightarrow> int list option
    \<Rightarrow> real list option \<Rightarrow> 'f Highs \<Rightarrow> HighsStatus \<times> 'f Highs" where
  "addColsInterface cb ic ext_num_new_col ext_col_cost ext_col_lower ext_col_upper
      ext_num_new_nz ext_a_start ext_a_index ext_a_value h =
    (if ext_num_new_col < 0 then (kError, h)
     else if ext_num_new_nz < 0 then (kError, h)
     else if ext_num_new_col = 0 then (kOk, h)
     else
       case (ext_col_cost, ext_col_lower, ext_col_upper) of
         (Some cost, Some lower, Some upper) \<Rightarrow>
           if 0 < ext_num_new_nz \<and>
              (ext_a_start = None \<or> ext_a_index = None \<or> ext_a_value = None)
           then (kError, h)
           else if num_row (model_lp h) \<le> 0 \<and> 0 < ext_num_new_nz then (kError, h)
           else addColsChecked cb ic (nat ext_num_new_col) cost lower upper
                  (nat ext_num_new_nz) ext_a_start ext_a_index ext_a_value h
       | _ \<Rightarrow> (kError, h))"

text \<open>
  \<^verbatim>\<open>Highs::addRowsInterface\<close>, after its checks of the counts and of the
  pointers.
\<close>

definition addRowsChecked :: "'f Collab \<Rightarrow> 'f IfaceCollab \<Rightarrow> nat \<Rightarrow> real list \<Rightarrow> real list
    \<Rightarrow> nat \<Rightarrow> int list option \<Rightarrow> int list option \<Rightarrow> real list option
    \<Rightarrow> 'f Highs \<Rightarrow> HighsStatus \<times> 'f Highs" where
  "addRowsChecked cb ic n lower upper nz ext_ar_start ext_ar_index ext_ar_value h =
    (let l = model_lp h; opts = highs_options h;
         (bound_status, local_rowLower, local_rowUpper) =
           assessBounds ic opts (num_row l) (take n lower) (take n upper);
         return_status1 = interpretCallStatus bound_status kOk
     in if return_status1 = kError then (return_status1, h)
        else if user_bound_scale l \<noteq> 0 \<and>
                \<not> boundScaleOk ic local_rowLower local_rowUpper
                    (user_bound_scale l) (infinite_bound opts)
        then (kError, h)
        else
          let l1 = appendRowsToLpVectors
                     (applyUserScale cb (user_bound_scale l) local_rowLower)
                     (applyUserScale cb (user_bound_scale l) local_rowUpper) l;
              h1 = h\<lparr>model_lp := l1\<rparr>;
              (return_status2, local_ar_matrix) =
                newMatrix opts kRowwise (num_col l1) n n nz
                  ext_ar_start ext_ar_index ext_ar_value return_status1
          in if nz \<noteq> 0 \<and> return_status2 = kError then (return_status2, h1)
             else (return_status2, addRowsCommit ic n local_ar_matrix h1))"

text \<open>
  \<^verbatim>\<open>Highs::addRowsInterface\<close>.  The debug check of the factorisation at its start
  has no effect on the state and is left out.
\<close>

definition addRowsInterface :: "'f Collab \<Rightarrow> 'f IfaceCollab \<Rightarrow> int \<Rightarrow> real list option \<Rightarrow> real list option
    \<Rightarrow> int \<Rightarrow> int list option \<Rightarrow> int list option \<Rightarrow> real list option
    \<Rightarrow> 'f Highs \<Rightarrow> HighsStatus \<times> 'f Highs" where
  "addRowsInterface cb ic ext_num_new_row ext_row_lower ext_row_upper
      ext_num_new_nz ext_ar_start ext_ar_index ext_ar_value h =
    (if ext_num_new_row < 0 then (kError, h)
     else if ext_num_new_nz < 0 then (kError, h)
     else if ext_num_new_row = 0 then (kOk, h)
     else
       case (ext_row_lower, ext_row_upper) of
         (Some lower, Some upper) \<Rightarrow>
           if 0 < ext_num_new_nz \<and>
              (ext_ar_start = None \<or> ext_ar_index = None \<or> ext_ar_value = None)
           then (kError, h)
           else if num_col (model_lp h) \<le> 0 \<and> 0 < ext_num_new_nz then (kError, h)
           else addRowsChecked cb ic (nat ext_num_new_row) lower upper
                  (nat ext_num_new_nz) ext_ar_start ext_ar_index ext_ar_value h
       | _ \<Rightarrow> (kError, h))"




section \<open>Writing the simplex basis\<close>

text \<open>
  \<^verbatim>\<open>HEkk::setBasis()\<close> installs the logical basis: every column nonbasic, with the
  move that its bounds select, and every slack basic. \<^verbatim>\<open>logicalMove\<close> is the choice of
  the move in the column loop.
\<close>

definition logicalMove :: "'f Collab \<Rightarrow> real \<Rightarrow> real \<Rightarrow> int" where
  "logicalMove cb lower upper =
    (if lower = upper then kNonbasicMoveZe
     else if \<not> highs_isInfinity cb (- lower) then
       (if \<not> highs_isInfinity cb upper then
          (if \<bar>lower\<bar> < \<bar>upper\<bar> then kNonbasicMoveUp else kNonbasicMoveDn)
        else kNonbasicMoveUp)
     else if \<not> highs_isInfinity cb upper then kNonbasicMoveDn
     else kNonbasicMoveZe)"

definition setBasis :: "'f Collab \<Rightarrow> 'f HEkk \<Rightarrow> HighsStatus \<times> 'f HEkk" where
  "setBasis cb s =
    (let lp = simplex_lp s; num_col = numCol lp; num_row = numRow lp;
         num_tot = num_col + num_row; b0 = simplex_basis s;
         b1 = b0\<lparr>nonbasicFlag := resize num_tot 0 (nonbasicFlag b0),
                 nonbasicMove := resize num_tot 0 (nonbasicMove b0),
                 basicIndex := resize num_row 0 (basicIndex b0)\<rparr>;
         b2 = foldl (\<lambda>b iCol.
                 b\<lparr>nonbasicFlag := (nonbasicFlag b)[iCol := kNonbasicFlagTrue],
                   nonbasicMove := (nonbasicMove b)
                     [iCol := logicalMove cb (colLower lp ! iCol) (colUpper lp ! iCol)]\<rparr>)
               b1 [0..<num_col];
         b3 = foldl (\<lambda>b iRow.
                 b\<lparr>nonbasicFlag := (nonbasicFlag b)[num_col + iRow := kNonbasicFlagFalse],
                   basicIndex := (basicIndex b)[iRow := num_col + iRow]\<rparr>)
               b2 [0..<num_row]
     in (kOk,
         s\<lparr>simplex_basis := b3,
           simplex_info := (simplex_info s)\<lparr>num_basic_logicals := int num_row\<rparr>,
           simplex_lp_status := (simplex_lp_status s)\<lparr>has_basis := True\<rparr>\<rparr>))"







section \<open>Initialising the engine for a solve\<close>

text \<open>
  \<^verbatim>\<open>HEkk::handleRankDeficiency\<close> reads the rank deficiency and the lists
  \<^verbatim>\<open>noPvR\<close> and \<^verbatim>\<open>noPvC\<close> that the factorisation has just left in the factor; here
  they are arguments.
\<close>

definition handleRankDeficiency :: "int \<Rightarrow> nat list \<Rightarrow> nat list \<Rightarrow> 'f HEkk \<Rightarrow> 'f HEkk" where
  "handleRankDeficiency rank_deficiency noPvR noPvC s =
    (let b = simplex_basis s;
         flag = foldl (\<lambda>fl k.
                   fl[numCol (simplex_lp s) + noPvR ! k := kNonbasicFlagFalse,
                      noPvC ! k := kNonbasicFlagTrue])
                 (nonbasicFlag b) [0..<nat rank_deficiency]
     in s\<lparr>simplex_basis := b\<lparr>nonbasicFlag := flag\<rparr>,
          simplex_lp_status := (simplex_lp_status s)\<lparr>has_matrix := False\<rparr>\<rparr>)"

text \<open>
  \<^verbatim>\<open>HEkk::setNonbasicMove\<close>, whose local \<^verbatim>\<open>have_solution\<close> is the constant
  \<^verbatim>\<open>false\<close>: the move of a nonbasic variable is chosen from its bounds as in the
  logical basis, a slack having the negated bounds of its row.
\<close>

definition setNonbasicMove :: "'f Collab \<Rightarrow> 'f HEkk \<Rightarrow> 'f HEkk" where
  "setNonbasicMove cb s =
    (let lp = simplex_lp s; num_tot = numCol lp + numRow lp; b = simplex_basis s;
         mv = foldl (\<lambda>mv iVar.
                 if nonbasicFlag b ! iVar = 0 then mv[iVar := kNonbasicMoveZe]
                 else
                   let lower = (if iVar < numCol lp then colLower lp ! iVar
                                else - rowUpper lp ! (iVar - numCol lp));
                       upper = (if iVar < numCol lp then colUpper lp ! iVar
                                else - rowLower lp ! (iVar - numCol lp))
                   in mv[iVar := logicalMove cb lower upper])
               (resize num_tot 0 (nonbasicMove b)) [0..<num_tot]
     in s\<lparr>simplex_basis := b\<lparr>nonbasicMove := mv\<rparr>\<rparr>)"

text \<open>
  \<^verbatim>\<open>HEkk::initialiseSimplexLpBasisAndFactor\<close>.  The result is zero on success.  When
  the basis has to be known and is not, the source returns the negated integer value
  of \<^verbatim>\<open>HighsStatus::kError\<close>; callers test the result against zero only, and the
  model returns 1 there.
\<close>

definition initialiseSimplexLpBasisAndFactor :: "'f Collab \<Rightarrow> bool \<Rightarrow> 'f HEkk \<Rightarrow> int \<times> 'f HEkk" where
  "initialiseSimplexLpBasisAndFactor cb only_from_known_basis s =
    (if \<not> has_basis (simplex_lp_status s) \<and> only_from_known_basis then (1, s)
     else
       let s1 = (if \<not> has_basis (simplex_lp_status s) then snd (setBasis cb s) else s);
           (rank0, f0, bi0, noPvR, noPvC) =
              factor_build cb (factor s1) (simplex_lp s1) (basicIndex (simplex_basis s1));
           (rank_deficiency, s2) = computeFactor cb s1
       in if rank_deficiency \<noteq> 0 then
            if only_from_known_basis then (rank_deficiency, s2)
            else
              let s3 = handleRankDeficiency rank_deficiency noPvR noPvC s2;
                  s4 = s3\<lparr>simplex_lp_status :=
                            updateSimplexLpStatus cb (simplex_lp_status s3) kNewBasis\<rparr>;
                  s5 = setNonbasicMove cb s4
              in (0, s5\<lparr>simplex_lp_status :=
                          (simplex_lp_status s5)\<lparr>has_basis := True, has_invert := True,
                                                  has_fresh_invert := True\<rparr>\<rparr>)
          else (0, s2))"

text \<open>\<^verbatim>\<open>HEkk::updateSimplexOptions\<close> copies the two perturbation multipliers.\<close>

definition updateSimplexOptions :: "'f HEkk \<Rightarrow> 'f HEkk" where
  "updateSimplexOptions s =
    s\<lparr>simplex_info := (simplex_info s)
        \<lparr>dual_simplex_cost_perturbation_multiplier :=
           opt_dual_simplex_cost_perturbation_multiplier (options s),
         primal_simplex_bound_perturbation_multiplier :=
           opt_primal_simplex_bound_perturbation_multiplier (options s)\<rparr>\<rparr>"

text \<open>
  \<^verbatim>\<open>HEkk::initialiseMatrix\<close>.  The copy of the matrix that \<^verbatim>\<open>HMatrix::setup\<close>
  makes is the matrix of \<^verbatim>\<open>simplex_lp_\<close>, which the matrix collaborators receive.
\<close>

definition initialiseMatrix :: "'f HEkk \<Rightarrow> 'f HEkk" where
  "initialiseMatrix s =
    (if \<not> has_matrix (simplex_lp_status s)
     then s\<lparr>simplex_lp_status := (simplex_lp_status s)\<lparr>has_matrix := True\<rparr>\<rparr>
     else s)"

definition allocateWorkAndBaseArrays :: "'f HEkk \<Rightarrow> 'f HEkk" where
  "allocateWorkAndBaseArrays s =
    (let num_tot = numCol (simplex_lp s) + numRow (simplex_lp s);
         num_row = numRow (simplex_lp s); work = simplex_work s
     in s\<lparr>simplex_work := work
          \<lparr>workCost := resize num_tot 0 (workCost work),
           workDual := resize num_tot 0 (workDual work),
           workShift := resize num_tot 0 (workShift work),
           workLower := resize num_tot 0 (workLower work),
           workUpper := resize num_tot 0 (workUpper work),
           workRange := resize num_tot 0 (workRange work),
           workValue := resize num_tot 0 (workValue work),
           workLowerShift := resize num_tot 0 (workLowerShift work),
           workUpperShift := resize num_tot 0 (workUpperShift work),
           devex_index := resize num_tot 0 (devex_index work),
           baseLower := resize num_row 0 (baseLower work),
           baseUpper := resize num_row 0 (baseUpper work),
           baseValue := resize num_row 0 (baseValue work)\<rparr>\<rparr>)"

text \<open>
  \<^verbatim>\<open>HEkk::initialiseLpColBound\<close> and \<^verbatim>\<open>HEkk::initialiseLpRowBound\<close>;
  \<open>setWorkBound\<close> is their common loop body, for variable \<open>iCol\<close> and its bounds.
\<close>

definition setWorkBound :: "nat \<Rightarrow> real \<Rightarrow> real \<Rightarrow> HighsSimplexWork \<Rightarrow> HighsSimplexWork" where
  "setWorkBound iCol lower upper work =
    (let wl = (workLower work)[iCol := lower]; wu = (workUpper work)[iCol := upper]
     in work\<lparr>workLower := wl, workUpper := wu,
             workRange := (workRange work)[iCol := wu ! iCol - wl ! iCol],
             workLowerShift := (workLowerShift work)[iCol := 0],
             workUpperShift := (workUpperShift work)[iCol := 0]\<rparr>)"

definition initialiseLpColBound :: "'f HEkk \<Rightarrow> 'f HEkk" where
  "initialiseLpColBound s =
    (let lp = simplex_lp s in
     s\<lparr>simplex_work :=
         foldl (\<lambda>work iCol. setWorkBound iCol (colLower lp ! iCol) (colUpper lp ! iCol) work)
           (simplex_work s) [0..<numCol lp]\<rparr>)"

definition initialiseLpRowBound :: "'f HEkk \<Rightarrow> 'f HEkk" where
  "initialiseLpRowBound s =
    (let lp = simplex_lp s in
     s\<lparr>simplex_work :=
         foldl (\<lambda>work iRow.
                  setWorkBound (numCol lp + iRow) (- rowUpper lp ! iRow) (- rowLower lp ! iRow) work)
           (simplex_work s) [0..<numRow lp]\<rparr>)"

text \<open>
  The perturbation of the bounds for the primal simplex in \<^verbatim>\<open>HEkk::initialiseBound\<close>.
  The smallest and largest finite bounds that the source collects first are only
  printed by a statement that is commented out.
\<close>

definition perturbBound :: "real \<Rightarrow> real \<Rightarrow> real \<Rightarrow> real" where
  "perturbBound random_value base bound =
    (if bound < - 1 then random_value * base * (- bound)
     else if bound < 1 then random_value * base
     else random_value * base * bound)"

definition perturbBounds :: "'f Collab \<Rightarrow> 'f HEkk \<Rightarrow> 'f HEkk" where
  "perturbBounds cb s =
    (let lp = simplex_lp s; num_tot = numCol lp + numRow lp; b = simplex_basis s;
         base = primal_simplex_bound_perturbation_multiplier (simplex_info s) * (5 / 10 ^ 7);
         work1 = foldl (\<lambda>work iVar.
                   let lower = workLower work ! iVar; upper = workUpper work ! iVar;
                       fixed = (lower = upper)
                   in if nonbasicFlag b ! iVar = kNonbasicFlagTrue \<and> fixed then work
                      else
                        let random_value = numTotRandomValue work ! iVar;
                            lower1 = (if - kHighsInf cb < lower
                                      then lower - perturbBound random_value base lower else lower);
                            wl = (if - kHighsInf cb < lower then (workLower work)[iVar := lower1]
                                  else workLower work);
                            upper1 = (if upper < kHighsInf cb
                                      then upper + perturbBound random_value base upper else upper);
                            wu = (if upper < kHighsInf cb then (workUpper work)[iVar := upper1]
                                  else workUpper work);
                            wr = (workRange work)[iVar := wu ! iVar - wl ! iVar];
                            wv = (if nonbasicFlag b ! iVar = kNonbasicFlagFalse then workValue work
                                  else if 0 < nonbasicMove b ! iVar
                                  then (workValue work)[iVar := lower1]
                                  else if nonbasicMove b ! iVar < 0
                                  then (workValue work)[iVar := upper1]
                                  else workValue work)
                        in work\<lparr>workLower := wl, workUpper := wu, workRange := wr,
                                workValue := wv\<rparr>)
                 (simplex_work s) [0..<num_tot];
         work2 = foldl (\<lambda>work iRow.
                   let iVar = basicIndex b ! iRow
                   in work\<lparr>baseLower := (baseLower work)[iRow := workLower work ! iVar],
                           baseUpper := (baseUpper work)[iRow := workUpper work ! iVar]\<rparr>)
                 work1 [0..<numRow lp]
     in s\<lparr>simplex_work := work2, simplex_info := (simplex_info s)\<lparr>bounds_perturbed := 1\<rparr>\<rparr>)"

text \<open>The bounds of phase 1 of the dual simplex, the last loop of \<^verbatim>\<open>initialiseBound\<close>.\<close>

definition dualPhase1Bounds :: "'f Collab \<Rightarrow> 'f HEkk \<Rightarrow> 'f HEkk" where
  "dualPhase1Bounds cb s =
    (let lp = simplex_lp s; num_tot = numCol lp + numRow lp; inf = kHighsInf cb;
         setB = (\<lambda>iCol lower upper work.
                   let wl = (workLower work)[iCol := lower]; wu = (workUpper work)[iCol := upper]
                   in work\<lparr>workLower := wl, workUpper := wu,
                           workRange := (workRange work)[iCol := wu ! iCol - wl ! iCol]\<rparr>)
     in s\<lparr>simplex_work :=
          foldl (\<lambda>work iCol.
                   if workLower work ! iCol = - inf \<and> workUpper work ! iCol = inf then
                     (if numCol lp \<le> iCol then work else setB iCol (- 1000) 1000 work)
                   else if workLower work ! iCol = - inf then setB iCol (- 1) 0 work
                   else if workUpper work ! iCol = inf then setB iCol 0 1 work
                   else setB iCol 0 0 work)
            (simplex_work s) [0..<num_tot]\<rparr>)"

definition initialiseBound :: "'f Collab \<Rightarrow> SimplexAlgorithm \<Rightarrow> int \<Rightarrow> bool \<Rightarrow> 'f HEkk \<Rightarrow> 'f HEkk" where
  "initialiseBound cb algorithm solve_phase perturb s =
    (let s1 = initialiseLpRowBound (initialiseLpColBound s);
         s2 = s1\<lparr>simplex_info := (simplex_info s1)\<lparr>bounds_perturbed := 0\<rparr>\<rparr>
     in if algorithm = kPrimal then
          (if \<not> perturb \<or> primal_simplex_bound_perturbation_multiplier (simplex_info s2) = 0
           then s2 else perturbBounds cb s2)
        else if solve_phase = kSolvePhase2 cb then s2
        else dualPhase1Bounds cb s2)"

text \<open>
  \<^verbatim>\<open>HEkk::initialiseNonbasicValueAndMove\<close>; \<open>nonbasicValueAndMove\<close> is the choice of
  the value and the move of a nonbasic variable from its bounds and its original move.
\<close>

definition nonbasicValueAndMove :: "'f Collab \<Rightarrow> real \<Rightarrow> real \<Rightarrow> int \<Rightarrow> real \<times> int" where
  "nonbasicValueAndMove cb lower upper original_move =
    (if lower = upper then (lower, kNonbasicMoveZe)
     else if \<not> highs_isInfinity cb (- lower) then
       (if \<not> highs_isInfinity cb upper then
          (if original_move = kNonbasicMoveUp then (lower, kNonbasicMoveUp)
           else if original_move = kNonbasicMoveDn then (upper, kNonbasicMoveDn)
           else (lower, kNonbasicMoveUp))
        else (lower, kNonbasicMoveUp))
     else if \<not> highs_isInfinity cb upper then (upper, kNonbasicMoveDn)
     else (0, kNonbasicMoveZe))"

definition initialiseNonbasicValueAndMove :: "'f Collab \<Rightarrow> 'f HEkk \<Rightarrow> 'f HEkk" where
  "initialiseNonbasicValueAndMove cb s =
    (let lp = simplex_lp s; num_tot = numCol lp + numRow lp; work = simplex_work s;
         flag = nonbasicFlag (simplex_basis s);
         (mv, wv) = foldl (\<lambda>(mv, wv) iVar.
                      if flag ! iVar = 0 then (mv[iVar := kNonbasicMoveZe], wv)
                      else
                        let (val, move) = nonbasicValueAndMove cb (workLower work ! iVar)
                                             (workUpper work ! iVar) (mv ! iVar)
                        in (mv[iVar := move], wv[iVar := val]))
                    (nonbasicMove (simplex_basis s), workValue work) [0..<num_tot]
     in s\<lparr>simplex_basis := (simplex_basis s)\<lparr>nonbasicMove := mv\<rparr>,
          simplex_work := work\<lparr>workValue := wv\<rparr>\<rparr>)"

text \<open>
  \<^verbatim>\<open>HEkk::computePrimal\<close> and \<^verbatim>\<open>HEkk::computeDual\<close>.  The density records of the
  analysis and the timers are left out.
\<close>

definition computePrimal :: "'f Collab \<Rightarrow> 'f HEkk \<Rightarrow> 'f HEkk" where
  "computePrimal cb s =
    (let lp = simplex_lp s; num_row = numRow lp; num_col = numCol lp;
         b = simplex_basis s; work = simplex_work s;
         primal_col1 =
           foldl (\<lambda>v i. if nonbasicFlag b ! i \<noteq> 0 \<and> workValue work ! i \<noteq> 0
                         then collect_aj cb lp v i (workValue work ! i) else v)
             \<lparr>hv_count = 0, hv_array = replicate num_row 0\<rparr> [0..<num_col + num_row];
         primal_col = (if hv_count primal_col1 \<noteq> 0 then ftran cb (factor s) primal_col1
                       else primal_col1);
         work1 = foldl (\<lambda>w i.
                   let iCol = basicIndex b ! i
                   in w\<lparr>baseValue := (baseValue w)[i := - hv_array primal_col ! i],
                        baseLower := (baseLower w)[i := workLower w ! iCol],
                        baseUpper := (baseUpper w)[i := workUpper w ! iCol]\<rparr>)
                 work [0..<num_row]
     in s\<lparr>simplex_work := work1,
          simplex_info := (simplex_info s)
            \<lparr>num_primal_infeasibility := kHighsIllegalInfeasibilityCount cb,
             max_primal_infeasibility := kHighsIllegalInfeasibilityMeasure cb,
             sum_primal_infeasibility := kHighsIllegalInfeasibilityMeasure cb\<rparr>,
          simplex_lp_status := (simplex_lp_status s)\<lparr>has_basic_primal_values := True\<rparr>\<rparr>)"

definition computeDual :: "'f Collab \<Rightarrow> 'f HEkk \<Rightarrow> 'f HEkk" where
  "computeDual cb s =
    (let lp = simplex_lp s; num_row = numRow lp; num_col = numCol lp;
         num_tot = num_col + num_row; b = simplex_basis s; work = simplex_work s;
         dual_col =
           foldl (\<lambda>v iRow.
                    let val = workCost work ! (basicIndex b ! iRow)
                              + workShift work ! (basicIndex b ! iRow)
                    in if val \<noteq> 0
                       then v\<lparr>hv_count := hv_count v + 1, hv_array := (hv_array v)[iRow := val]\<rparr>
                       else v)
             \<lparr>hv_count = 0, hv_array = replicate num_row 0\<rparr> [0..<num_row];
         wd0 = foldl (\<lambda>wd i. wd[i := workCost work ! i]) (workDual work) [0..<num_tot];
         wd = (if hv_count dual_col \<noteq> 0 then
                 let dual_col1 = btran cb (factor s) dual_col;
                     dual_row = priceByColumn cb lp dual_col1;
                     wd1 = foldl (\<lambda>wd i. wd[i := wd ! i - hv_array dual_row ! i]) wd0 [0..<num_col]
                 in foldl (\<lambda>wd i. wd[i := wd ! i - hv_array dual_col1 ! (i - num_col)])
                      wd1 [num_col..<num_tot]
               else wd0)
     in s\<lparr>simplex_work := work\<lparr>workDual := wd\<rparr>,
          simplex_info := (simplex_info s)
            \<lparr>num_dual_infeasibility := kHighsIllegalInfeasibilityCount cb,
             max_dual_infeasibility := kHighsIllegalInfeasibilityMeasure cb,
             sum_dual_infeasibility := kHighsIllegalInfeasibilityMeasure cb\<rparr>,
          simplex_lp_status := (simplex_lp_status s)\<lparr>has_nonbasic_dual_values := True\<rparr>\<rparr>)"

text \<open>
  \<^verbatim>\<open>HEkk::computeSimplexPrimalInfeasible\<close>.  \<open>primalInfeasibility\<close> is the
  calculation of one infeasibility from a value and its bounds, and
  \<open>recordInfeasibility\<close> the update of the count, the maximum and the sum; the count
  moves when \<open>counts\<close> holds, which is a strict comparison with the tolerance for
  primal infeasibilities and a weak one for dual infeasibilities.
\<close>

definition primalInfeasibility :: "real \<Rightarrow> real \<Rightarrow> real \<Rightarrow> real \<Rightarrow> real" where
  "primalInfeasibility tol val lower upper =
    (if val < lower - tol then lower - val
     else if upper + tol < val then val - upper
     else 0)"

definition recordInfeasibility :: "bool \<Rightarrow> real \<Rightarrow> int \<times> real \<times> real \<Rightarrow> int \<times> real \<times> real" where
  "recordInfeasibility counts infeasibility acc =
    (let (num, mx, sm) = acc
     in if 0 < infeasibility
        then ((if counts then num + 1 else num), max infeasibility mx, sm + infeasibility)
        else acc)"

definition computeSimplexPrimalInfeasible :: "'f HEkk \<Rightarrow> 'f HEkk" where
  "computeSimplexPrimalInfeasible s =
    (let lp = simplex_lp s; work = simplex_work s; b = simplex_basis s;
         tol = primal_feasibility_tolerance (options s);
         acc1 = foldl (\<lambda>acc i.
                  if nonbasicFlag b ! i \<noteq> 0 then
                    let primal_infeasibility =
                          primalInfeasibility tol (workValue work ! i) (workLower work ! i)
                            (workUpper work ! i)
                    in recordInfeasibility (tol < primal_infeasibility) primal_infeasibility acc
                  else acc)
                (0, 0, 0) [0..<numCol lp + numRow lp];
         acc2 = foldl (\<lambda>acc i.
                  let primal_infeasibility =
                        primalInfeasibility tol (baseValue work ! i) (baseLower work ! i)
                          (baseUpper work ! i)
                  in recordInfeasibility (tol < primal_infeasibility) primal_infeasibility acc)
                acc1 [0..<numRow lp];
         (num, mx, sm) = acc2
     in s\<lparr>simplex_info := (simplex_info s)
          \<lparr>num_primal_infeasibility := num, max_primal_infeasibility := mx,
           sum_primal_infeasibility := sm\<rparr>\<rparr>)"

definition computeSimplexDualInfeasible :: "'f Collab \<Rightarrow> 'f HEkk \<Rightarrow> 'f HEkk" where
  "computeSimplexDualInfeasible cb s =
    (let lp = simplex_lp s; work = simplex_work s; b = simplex_basis s;
         tol = dual_feasibility_tolerance (options s);
         acc1 = foldl (\<lambda>acc iCol.
                  if nonbasicFlag b ! iCol = 0 then acc
                  else
                    let dual = workDual work ! iCol;
                        lower = workLower work ! iCol; upper = workUpper work ! iCol;
                        dual_infeasibility =
                          (if highs_isInfinity cb (- lower) \<and> highs_isInfinity cb upper
                           then \<bar>dual\<bar>
                           else - real_of_int (nonbasicMove b ! iCol) * dual)
                    in recordInfeasibility (tol \<le> dual_infeasibility) dual_infeasibility acc)
                (0, 0, 0) [0..<numCol lp + numRow lp];
         (num, mx, sm) = acc1
     in s\<lparr>simplex_info := (simplex_info s)
          \<lparr>num_dual_infeasibility := num, max_dual_infeasibility := mx,
           sum_dual_infeasibility := sm\<rparr>\<rparr>)"

definition computeSimplexInfeasible :: "'f Collab \<Rightarrow> 'f HEkk \<Rightarrow> 'f HEkk" where
  "computeSimplexInfeasible cb s =
    computeSimplexDualInfeasible cb (computeSimplexPrimalInfeasible s)"

text \<open>\<^verbatim>\<open>HEkk::computeDualObjectiveValue\<close> and \<^verbatim>\<open>HEkk::computePrimalObjectiveValue\<close>.\<close>

definition computeDualObjectiveValue :: "int \<Rightarrow> 'f HEkk \<Rightarrow> 'f HEkk" where
  "computeDualObjectiveValue phase s =
    (let lp = simplex_lp s; work = simplex_work s; b = simplex_basis s;
         v0 = foldl (\<lambda>v iCol.
                if nonbasicFlag b ! iCol \<noteq> 0 then
                  let term = workValue work ! iCol * workDual work ! iCol
                  in if term \<noteq> 0 then v + workValue work ! iCol * workDual work ! iCol else v
                else v)
              0 [0..<numCol lp + numRow lp];
         v1 = v0 * cost_scale s;
         v2 = (if phase \<noteq> 1 then v1 + sense_int (sense lp) * offset lp else v1)
     in s\<lparr>simplex_info := (simplex_info s)\<lparr>dual_objective_value := v2\<rparr>,
          simplex_lp_status := (simplex_lp_status s)\<lparr>has_dual_objective_value := True\<rparr>\<rparr>)"

definition computePrimalObjectiveValue :: "'f HEkk \<Rightarrow> 'f HEkk" where
  "computePrimalObjectiveValue s =
    (let lp = simplex_lp s; work = simplex_work s; b = simplex_basis s;
         v0 = foldl (\<lambda>v iRow.
                let iVar = basicIndex b ! iRow
                in if iVar < numCol lp then v + baseValue work ! iRow * colCost lp ! iVar else v)
              0 [0..<numRow lp];
         v1 = foldl (\<lambda>v iCol.
                if nonbasicFlag b ! iCol \<noteq> 0 then v + workValue work ! iCol * colCost lp ! iCol
                else v)
              v0 [0..<numCol lp];
         v2 = v1 * cost_scale s + offset lp
     in s\<lparr>simplex_info := (simplex_info s)\<lparr>primal_objective_value := v2\<rparr>,
          simplex_lp_status := (simplex_lp_status s)\<lparr>has_primal_objective_value := True\<rparr>\<rparr>)"

text \<open>
  \<^verbatim>\<open>HEkk::initialiseForSolve\<close>.  The two calls without arguments take the defaults
  of the declarations, \<^verbatim>\<open>only_from_known_basis = false\<close> and \<^verbatim>\<open>phase = 2\<close>.
  \<open>initialiseData\<close> is the sequence of calls from \<^verbatim>\<open>updateSimplexOptions\<close> to
  \<^verbatim>\<open>computePrimalObjectiveValue\<close>; it is \<open>None\<close> where \<^verbatim>\<open>initialiseCost\<close> is.
\<close>

definition initialiseData :: "'f Collab \<Rightarrow> 'f HEkk \<Rightarrow> 'f HEkk option" where
  "initialiseData cb s =
    (case initialiseCost cb kPrimal (kSolvePhaseUnknown cb) False
            (allocateWorkAndBaseArrays (initialiseMatrix (updateSimplexOptions s))) of
       None \<Rightarrow> None
     | Some s2 \<Rightarrow>
         Some (computePrimalObjectiveValue (computeDualObjectiveValue 2
                (computeSimplexInfeasible cb (computeDual cb (computePrimal cb
                  (initialiseNonbasicValueAndMove cb
                    (initialiseBound cb kPrimal (kSolvePhaseUnknown cb) False s2))))))))"

definition initialiseForSolve :: "'f Collab \<Rightarrow> 'f HEkk \<Rightarrow> (HighsStatus \<times> 'f HEkk) option" where
  "initialiseForSolve cb s =
    (let (error_return, s1) = initialiseSimplexLpBasisAndFactor cb False s
     in if error_return \<noteq> 0 then Some (kError, s1)
        else
          case initialiseData cb s1 of
            None \<Rightarrow> None
          | Some s2 \<Rightarrow>
              let s3 = s2\<lparr>simplex_lp_status := (simplex_lp_status s2)\<lparr>status_valid := True\<rparr>\<rparr>;
                  primal_feasible = (num_primal_infeasibility (simplex_info s3) = 0);
                  dual_feasible = (num_dual_infeasibility (simplex_info s3) = 0)
              in Some (kOk,
                       s3\<lparr>scaled_model_status :=
                            (if primal_feasible \<and> dual_feasible then kOptimal else kNotset)\<rparr>))"

section \<open>The solve\<close>

text \<open>
  \<^verbatim>\<open>HEkk::chooseSimplexStrategyThreads\<close>.  Without \<^verbatim>\<open>OPENMP\<close> the number of
  threads that OpenMP offers is 0 and the thread bounds stay at 1.  The warnings only
  log.
\<close>

definition chooseSimplexStrategyThreads :: "'f Collab \<Rightarrow> HighsOptions \<Rightarrow> HighsSimplexInfo
    \<Rightarrow> HighsSimplexInfo" where
  "chooseSimplexStrategyThreads cb opts info =
    (let strategy0 = opt_simplex_strategy opts;
         strategy1 = (if strategy0 = kSimplexStrategyChoose then
                        (if 0 < num_primal_infeasibility info then kSimplexStrategyDual
                         else kSimplexStrategyPrimal)
                      else strategy0);
         omp = (if openmp cb then omp_max_threads cb else 0);
         strategy2 = (if opt_parallel_on opts \<and> strategy1 = kSimplexStrategyDual \<and>
                         kDualMultiMinThreads cb \<le> omp
                      then kSimplexStrategyDualMulti else strategy1);
         min_t = (if openmp cb \<and> strategy2 = kSimplexStrategyDualTasks
                  then max (kDualTasksMinThreads cb) (highs_min_threads opts)
                  else if openmp cb \<and> strategy2 = kSimplexStrategyDualMulti
                  then max (kDualMultiMinThreads cb) (highs_min_threads opts)
                  else 1);
         max_t = (if openmp cb \<and> (strategy2 = kSimplexStrategyDualTasks \<or>
                                     strategy2 = kSimplexStrategyDualMulti)
                  then max min_t (highs_max_threads opts) else 1)
     in info\<lparr>simplex_strategy := strategy2, min_threads := min_t, max_threads := max_t,
             num_threads := max_t\<rparr>)"

text \<open>
  The drivers \<^verbatim>\<open>HEkkDual::solve\<close> and \<^verbatim>\<open>HEkkPrimal::solve\<close>, whose classes are not
  among the sources, as functions on the engine that return the status of the call,
  and the two buffers of edge weights that a dual solver offers when it is constructed
  on an engine.  Constructing a solver on the engine is taken to leave the engine as
  it is.
\<close>

record 'f Drivers =
  dual_solve :: "'f HEkk \<Rightarrow> HighsStatus \<times> 'f HEkk"
  primal_solve :: "'f HEkk \<Rightarrow> HighsStatus \<times> 'f HEkk"
  getWorkEdWt :: "'f HEkk \<Rightarrow> real list"
  getWorkEdWtFull :: "'f HEkk \<Rightarrow> real list"

text \<open>
  Running a driver from the engine: the dual driver after the engine has taken the
  pointers to its edge weights, the primal driver after the engine has set them to
  \<^verbatim>\<open>NULL\<close>.
\<close>

definition runDual :: "'f Drivers \<Rightarrow> 'f HEkk \<Rightarrow> HighsStatus \<times> 'f HEkk" where
  "runDual dr s =
    dual_solve dr (s\<lparr>workEdWt := Some (getWorkEdWt dr s),
                     workEdWtFull := Some (getWorkEdWtFull dr s)\<rparr>)"

definition runPrimal :: "'f Drivers \<Rightarrow> 'f HEkk \<Rightarrow> HighsStatus \<times> 'f HEkk" where
  "runPrimal dr s = primal_solve dr (s\<lparr>workEdWt := None, workEdWtFull := None\<rparr>)"

text \<open>
  \<^verbatim>\<open>HEkk::cleanup\<close>.  Setting \<open>dual_edge_weight_devex\<close> is the assignment of
  \<^verbatim>\<open>kSimplexDualEdgeWeightStrategyDevex\<close> to the edge weight strategy.
\<close>

definition cleanup :: "'f Drivers \<Rightarrow> 'f HEkk \<Rightarrow> HighsStatus \<times> 'f HEkk" where
  "cleanup dr s =
    (if num_primal_infeasibility (simplex_info s) \<noteq> 0 then
       let s1 = s\<lparr>simplex_info := (simplex_info s)
                    \<lparr>simplex_strategy := kSimplexStrategyDual,
                     dual_simplex_cost_perturbation_multiplier := 0,
                     dual_edge_weight_devex := True\<rparr>\<rparr>;
           (call_status, t) = runDual dr s1
       in (interpretCallStatus call_status kOk, t)
     else
       let s1 = s\<lparr>simplex_info := (simplex_info s)
                    \<lparr>simplex_strategy := kSimplexStrategyPrimal,
                     primal_simplex_bound_perturbation_multiplier := 0\<rparr>\<rparr>;
           (call_status, t) = runPrimal dr s1
       in (interpretCallStatus call_status kOk, t))"

text \<open>
  \<^verbatim>\<open>HEkk::solve\<close>, in three parts.  \<open>prepareSolve\<close> is what the engine does between
  the test for optimality and the choice of a driver: the rays are declared unknown,
  the perturbations are allowed and the strategy is chosen.  \<open>initialSolve\<close> is the
  initial solve according to the strategy, with the second call of the primal driver
  when the dual driver has left the status \<^verbatim>\<open>kUnboundedOrInfeasible\<close>; that call is
  made on the engine as the dual driver left it.
\<close>

definition prepareSolve :: "'f Collab \<Rightarrow> 'f HEkk \<Rightarrow> 'f HEkk" where
  "prepareSolve cb s =
    (let s1 = s\<lparr>simplex_lp_status :=
                  (simplex_lp_status s)\<lparr>has_dual_ray := False, has_primal_ray := False\<rparr>,
                simplex_info :=
                  (simplex_info s)\<lparr>allow_cost_perturbation := True,
                                    allow_bound_perturbation := True\<rparr>\<rparr>
     in s1\<lparr>simplex_info := chooseSimplexStrategyThreads cb (options s1) (simplex_info s1)\<rparr>)"

definition initialSolve :: "'f Drivers \<Rightarrow> 'f HEkk \<Rightarrow> HighsStatus \<times> 'f HEkk" where
  "initialSolve dr s =
    (if simplex_strategy (simplex_info s) = kSimplexStrategyPrimal then
       let (call_status, t) = runPrimal dr s
       in (interpretCallStatus call_status kOk, t)
     else
       let (call_status, t) = runDual dr s;
           return_status = interpretCallStatus call_status kOk
       in if scaled_model_status t = kUnboundedOrInfeasible then
            let (call_status2, u) = primal_solve dr t
            in (interpretCallStatus call_status2 return_status, u)
          else (return_status, t))"

definition solve :: "'f Collab \<Rightarrow> 'f Drivers \<Rightarrow> 'f HEkk \<Rightarrow> (HighsStatus \<times> 'f HEkk) option" where
  "solve cb dr s =
    (case initialiseForSolve cb (s\<lparr>iteration_count := 0\<rparr>) of
       None \<Rightarrow> None
     | Some (init_status, s1) \<Rightarrow>
         if init_status = kError then Some (kError, s1)
         else if scaled_model_status s1 = kOptimal then Some (kOk, s1)
         else
           let (return_status, s2) = initialSolve dr (prepareSolve cb s1)
           in if return_status = kError then Some (return_status, s2)
              else if scaled_model_status s2 = kNotset then
                let (call_status, s3) = cleanup dr s2
                in Some (interpretCallStatus call_status return_status, s3)
              else Some (return_status, s2))"

section \<open>Example states\<close>

text \<open>
  A small engine with two columns and two rows, and toy collaborators: the toy
  factorisation reports a rank deficiency of 1 exactly when the basic index array
  names a variable twice, and the toy consistency checks only count the basic
  variables.
\<close>

definition demo_collab :: "unit Collab" where
  "demo_collab =
    \<lparr>factor_build = (\<lambda>f lp bi. (if distinct bi then 0 else 1, f, bi, [], [])),
     ftran = (\<lambda>f v. v), btran = (\<lambda>f v. v),
     collect_aj = (\<lambda>lp v i x. v), priceByColumn = (\<lambda>lp v. v),
     random_fraction = (\<lambda>n. (1 / 2, Suc n)),
     updateSimplexLpStatus = (\<lambda>st a. st),
     kHighsInf = 1000000, openmp = False, omp_max_threads = 0,
     kDualTasksMinThreads = 3, kDualMultiMinThreads = 2,
     kSolvePhaseUnknown = - 1, kSolvePhase2 = 2,
     kHighsIllegalInfeasibilityCount = - 1, kHighsIllegalInfeasibilityMeasure = 1000000,
     highs_basis_logical_error = (\<lambda>opts lp b.
        length (filter (\<lambda>x. x = kBasic) (col_status b @ row_status b)) \<noteq> numRow lp),
     simplex_basis_logical_error = (\<lambda>opts lp b. length (basicIndex b) \<noteq> numRow lp)\<rparr>"

definition demo_lp :: SimplexLp where
  "demo_lp =
    \<lparr>numCol = 2, numRow = 2, Astart = [0, 1, 2], Aindex = [0, 1], Avalue = [1, 1],
     colCost = [1, 2], colLower = [0, 0], colUpper = [1, 1000000],
     rowLower = [- 1000000, 0], rowUpper = [4, 4], sense = kMinimize, offset = 0\<rparr>"

definition demo_status :: HighsSimplexLpStatus where
  "demo_status =
    \<lparr>initialised = True, initialised_for_solve = True, status_valid = True,
     has_basis = True, has_matrix = True, has_factor_arrays = True, has_invert = False,
     has_fresh_invert = False, has_fresh_rebuild = False, has_dual_ray = False,
     has_primal_ray = False, has_basic_primal_values = True,
     has_nonbasic_dual_values = True, has_dual_objective_value = False,
     has_primal_objective_value = False\<rparr>"

definition demo_work :: HighsSimplexWork where
  "demo_work =
    \<lparr>workCost = [1, 2, 0, 0], workDual = [- 1, 2, 0, 0], workShift = [0, 0, 0, 0],
     workLower = [0, 0, - 4, - 4], workUpper = [1, 1000000, 1000000, 0],
     workRange = [1, 1000000, 1000004, 4], workValue = [0, 0, 0, 0],
     workLowerShift = [0, 0, 0, 0], workUpperShift = [0, 0, 0, 0],
     baseLower = [- 4, - 4], baseUpper = [1000000, 0], baseValue = [3, - 5],
     numTotRandomValue = [1 / 4, 1 / 2, 3 / 4, 1 / 8], devex_index = [0, 0, 0, 0],
     backtracking_basis =
       \<lparr>basicIndex = [2, 3], nonbasicFlag = [1, 1, 0, 0], nonbasicMove = [1, 1, 0, 0]\<rparr>,
     backtracking_basis_workShift = [0, 0, 0, 0],
     backtracking_basis_edge_weights = [1, 1, 1, 1]\<rparr>"

definition demo_info :: HighsSimplexInfo where
  "demo_info =
    \<lparr>costs_perturbed = 0, bounds_perturbed = 0, update_count = 10, update_limit = 5000,
     num_basic_logicals = 2, updated_dual_objective_value = 0, primal_objective_value = 0,
     dual_objective_value = 0, backtracking = False, valid_backtracking_basis = True,
     backtracking_basis_costs_perturbed = 0,
     num_primal_infeasibility = 0, max_primal_infeasibility = 0,
     sum_primal_infeasibility = 0, num_dual_infeasibility = 0,
     max_dual_infeasibility = 0, sum_dual_infeasibility = 0,
     dual_simplex_cost_perturbation_multiplier = 1,
     primal_simplex_bound_perturbation_multiplier = 1,
     allow_cost_perturbation = True, allow_bound_perturbation = True,
     simplex_strategy = kSimplexStrategyDual, dual_edge_weight_devex = False,
     min_threads = 1, max_threads = 1, num_threads = 1\<rparr>"

definition demo_options :: HighsOptions where
  "demo_options =
    \<lparr>primal_feasibility_tolerance = 1 / 10000000, dual_feasibility_tolerance = 1 / 10000000,
     simplex_update_limit = 5000, opt_simplex_strategy = kSimplexStrategyChoose,
     opt_parallel_on = False, highs_min_threads = 1, highs_max_threads = 8,
     opt_dual_simplex_cost_perturbation_multiplier = 1,
     opt_primal_simplex_bound_perturbation_multiplier = 1,
     infinite_cost = 1000000, infinite_bound = 1000000,
     small_matrix_value = 1 / 1000000000, large_matrix_value = 1000000000000000,
     allowed_matrix_scale_factor = 20\<rparr>"

definition demo_ekk :: "unit HEkk" where
  "demo_ekk =
    \<lparr>simplex_lp = demo_lp,
     simplex_basis =
       \<lparr>basicIndex = [2, 3], nonbasicFlag = [1, 1, 0, 0], nonbasicMove = [1, 1, 0, 0]\<rparr>,
     simplex_work = demo_work, simplex_info = demo_info, simplex_lp_status = demo_status,
     options = demo_options, scaled_model_status = kNotset, factor = (),
     workEdWt = None, workEdWtFull = None, cost_scale = 1, iteration_count = 0,
     random_state = 0, solve_bailout = False, called_return_from_solve = False,
     hot_start_refactor_info = \<lparr>pivot_row = [], pivot_var = [], pivot_type = []\<rparr>\<rparr>"

text \<open>A state whose current basis names column 2 twice.\<close>

definition demo_singular :: "unit HEkk" where
  "demo_singular =
     demo_ekk\<lparr>simplex_basis :=
       \<lparr>basicIndex = [2, 2], nonbasicFlag = [1, 1, 0, 1], nonbasicMove = [1, 1, 0, 1]\<rparr>\<rparr>"

lemmas demo_defs = demo_singular_def demo_ekk_def demo_collab_def demo_lp_def demo_work_def
  demo_info_def demo_status_def demo_options_def

text \<open>The example engine with column 0 and the slack of row 1 basic.\<close>

definition demo_mixed :: "unit HEkk" where
  "demo_mixed =
     demo_ekk\<lparr>simplex_basis :=
       \<lparr>basicIndex = [0, 3], nonbasicFlag = [0, 1, 1, 0], nonbasicMove = [0, 1, - 1, 0]\<rparr>\<rparr>"

lemmas demo_mixed_defs = demo_mixed_def demo_ekk_def demo_collab_def demo_lp_def demo_work_def
  demo_info_def demo_status_def demo_options_def

lemma upt_demo: "[0..<2] = [0, 1]" "[2..<4] = [2, 3]" "[0..<4] = [0, 1, 2, 3]" "(2::nat) + 2 = 4"
  by (simp_all add: upt_rec)

text \<open>The example engine with no finite range among its four variables.\<close>

definition demo_unboxed :: "unit HEkk" where
  "demo_unboxed =
     demo_ekk\<lparr>simplex_work :=
       demo_work\<lparr>workRange := [2 * 10 ^ 30, 2 * 10 ^ 30, 2 * 10 ^ 30, 2 * 10 ^ 30]\<rparr>\<rparr>"

text \<open>
  A small \<^verbatim>\<open>Highs\<close> object around the example engine, with toy collaborators of
  the interface: the assessors accept everything, the engine's hooks do nothing, and
  the toy \<open>matrix_addRows\<close> only counts the rows (right for rows without nonzeros,
  the only ones the examples add).
\<close>

definition demo_iface :: "unit IfaceCollab" where
  "demo_iface =
    \<lparr>assessCosts = (\<lambda>opts off c. (kOk, c, False)),
     assessBounds = (\<lambda>opts off lo up. (kOk, lo, up)),
     boundScaleOk = (\<lambda>lo up k b. True),
     costScaleOk = (\<lambda>c k b. True),
     matrix_addCols = (\<lambda>a b.
        a\<lparr>m_num_col := m_num_col a + m_num_col b,
          a_start := a_start a @ map (\<lambda>x. x + last (a_start a)) (tl (a_start b)),
          a_index := a_index a @ a_index b, a_value := a_value a @ a_value b\<rparr>),
     matrix_addRows = (\<lambda>a b. a\<lparr>m_num_row := m_num_row a + m_num_row b\<rparr>),
     applyRowScale = (\<lambda>sc m. m), applyColScale = (\<lambda>sc m. m),
     considerColScaling = (\<lambda>k m. (m, replicate (m_num_col m) 1)),
     considerRowScaling = (\<lambda>k m. (m, replicate (m_num_row m) 1)),
     addColNames = (\<lambda>n l. l), addRowNames = (\<lambda>n l. l),
     ekk_addCols = (\<lambda>l m e. e), ekk_addRows = (\<lambda>l m e. e),
     ekk_updateStatus = (\<lambda>a e. e), ekk_setNlaRefactorInfo = (\<lambda>e. e)\<rparr>"

definition demo_model_lp :: HighsLp where
  "demo_model_lp =
    \<lparr>num_col = 2, num_row = 2, col_cost = [1, 2], col_lower = [0, 0],
     col_upper = [1, 1000000], row_lower = [- 1000000, 0], row_upper = [4, 4],
     a_matrix = \<lparr>format = kColwise, m_num_col = 2, m_num_row = 2,
                 a_start = [0, 1, 2], a_index = [0, 1], a_value = [1, 1]\<rparr>,
     scale = \<lparr>has_scaling = False, scale_num_col = 0, scale_num_row = 0,
              scale_col = [], scale_row = []\<rparr>,
     user_bound_scale = 0, user_cost_scale = 0, has_infinite_cost = False\<rparr>"

definition demo_highs :: "unit Highs" where
  "demo_highs =
    \<lparr>model_lp = demo_model_lp,
     basis = \<lparr>valid = True, alien = False, was_alien = False,
              col_status = [kLower, kLower], row_status = [kBasic, kBasic]\<rparr>,
     ekk_instance = demo_ekk, model_status = kOptimal, highs_options = demo_options,
     solution_value_valid = True, solution_dual_valid = True, info_valid = True\<rparr>"

lemmas demo_highs_defs = demo_highs_def demo_model_lp_def demo_iface_def demo_ekk_def
  demo_lp_def demo_work_def demo_info_def demo_status_def demo_options_def





text \<open>
  A fresh engine for the LP min x, 0 <= x <= 1, x <= 4, without a basis and with empty
  work arrays; the same engine for the unbounded LP min -x, 0 <= x, x >= -4, with the
  dual simplex as the strategy of the options; and toy drivers: the dual driver leaves
  the status \<^verbatim>\<open>kUnboundedOrInfeasible\<close>, the primal driver \<^verbatim>\<open>kUnbounded\<close>.
\<close>

definition demo_solve_lp :: SimplexLp where
  "demo_solve_lp =
    \<lparr>numCol = 1, numRow = 1, Astart = [0, 1], Aindex = [0], Avalue = [1],
     colCost = [1], colLower = [0], colUpper = [1],
     rowLower = [- 1000000], rowUpper = [4], sense = kMinimize, offset = 0\<rparr>"

definition demo_fresh_status :: HighsSimplexLpStatus where
  "demo_fresh_status =
    \<lparr>initialised = True, initialised_for_solve = False, status_valid = False,
     has_basis = False, has_matrix = False, has_factor_arrays = False, has_invert = False,
     has_fresh_invert = False, has_fresh_rebuild = False, has_dual_ray = False,
     has_primal_ray = False, has_basic_primal_values = False,
     has_nonbasic_dual_values = False, has_dual_objective_value = False,
     has_primal_objective_value = False\<rparr>"

definition demo_fresh_work :: HighsSimplexWork where
  "demo_fresh_work =
    \<lparr>workCost = [], workDual = [], workShift = [], workLower = [], workUpper = [],
     workRange = [], workValue = [], workLowerShift = [], workUpperShift = [],
     baseLower = [], baseUpper = [], baseValue = [],
     numTotRandomValue = [1 / 4, 1 / 2], devex_index = [],
     backtracking_basis = \<lparr>basicIndex = [], nonbasicFlag = [], nonbasicMove = []\<rparr>,
     backtracking_basis_workShift = [], backtracking_basis_edge_weights = []\<rparr>"

definition demo_fresh :: "unit HEkk" where
  "demo_fresh =
    \<lparr>simplex_lp = demo_solve_lp,
     simplex_basis = \<lparr>basicIndex = [], nonbasicFlag = [], nonbasicMove = []\<rparr>,
     simplex_work = demo_fresh_work, simplex_info = demo_info,
     simplex_lp_status = demo_fresh_status,
     options = demo_options, scaled_model_status = kNotset, factor = (),
     workEdWt = None, workEdWtFull = None, cost_scale = 1, iteration_count = 7,
     random_state = 0, solve_bailout = False, called_return_from_solve = False,
     hot_start_refactor_info = \<lparr>pivot_row = [], pivot_var = [], pivot_type = []\<rparr>\<rparr>"



section \<open>Backtracking to the last nonsingular basis\<close>

lemma scatter_simps [simp]:
  "simplex_basis (scatterEdgeWeights s) = simplex_basis s"
  "factor (scatterEdgeWeights s) = factor s"
  "simplex_lp (scatterEdgeWeights s) = simplex_lp s"
  "simplex_info (scatterEdgeWeights s) = simplex_info s"
  "simplex_work (scatterEdgeWeights s) = simplex_work s"
  by (auto simp: scatterEdgeWeights_def split: option.splits)

lemma gather_simps [simp]:
  "simplex_basis (gatherEdgeWeights s) = simplex_basis s"
  "factor (gatherEdgeWeights s) = factor s"
  "simplex_lp (gatherEdgeWeights s) = simplex_lp s"
  "simplex_info (gatherEdgeWeights s) = simplex_info s"
  "simplex_lp_status (gatherEdgeWeights s) = simplex_lp_status s"
  by (auto simp: gatherEdgeWeights_def split: option.splits)

text \<open>
  Claim C4, as amended.  When the factorisation at the start of
  \<^verbatim>\<open>getNonsingularInverse\<close> reports a rank deficiency (\<open>rd1 \<noteq> 0\<close>), the call
  succeeds exactly when a backtracking snapshot is valid, the factorisation of the
  snapshot's basic index array (\<open>rd2\<close>) is not rank deficient, and more than one
  update had been performed when the call started.  When it succeeds, the basis is the
  snapshot (its basic index array as permuted by the second factorisation), the engine
  has an inverse, backtracking is recorded, and the update limit is half the number of
  updates performed (not half the previous update limit).
\<close>

theorem C4_backtracking:
  assumes b1: "factor_build cb (factor s) (simplex_lp s) (basicIndex (simplex_basis s))
                 = (rd1, f1, bi1, r1, c1)"
    and b2: "factor_build cb f1 (simplex_lp s) (basicIndex (backtracking_basis (simplex_work s)))
                 = (rd2, f2, bi2, r2, c2)"
    and rd: "rd1 \<noteq> 0"
  shows "(fst (getNonsingularInverse cb s) \<longleftrightarrow>
           valid_backtracking_basis (simplex_info s) \<and> rd2 = 0 \<and> 1 < update_count (simplex_info s))
       \<and> (fst (getNonsingularInverse cb s) \<longrightarrow>
           simplex_basis (snd (getNonsingularInverse cb s)) =
             (backtracking_basis (simplex_work s))\<lparr>basicIndex := bi2\<rparr> \<and>
           factor (snd (getNonsingularInverse cb s)) = f2 \<and>
           has_invert (simplex_lp_status (snd (getNonsingularInverse cb s))) \<and>
           backtracking (simplex_info (snd (getNonsingularInverse cb s))) \<and>
           update_limit (simplex_info (snd (getNonsingularInverse cb s))) =
             update_count (simplex_info s) div 2)"
  using b1 b2 rd
  by (auto simp: getNonsingularInverse_def computeFactor_def getBacktrackingBasis_def Let_def
      split: prod.splits if_splits bool.splits)

text \<open>
  The claim as stated has the update limit halved.  In the example the limit is 5000
  and 10 updates were performed: the new limit is 5, not 2500.
\<close>

theorem C4_counterexample:
  "fst (computeFactor demo_collab demo_singular) = 1 \<and>
   fst (getNonsingularInverse demo_collab demo_singular) \<and>
   update_limit (simplex_info (snd (getNonsingularInverse demo_collab demo_singular))) = 5 \<and>
   update_limit (simplex_info demo_singular) div 2 = 2500"
  by (simp add: demo_defs getNonsingularInverse_def computeFactor_def getBacktrackingBasis_def
      scatterEdgeWeights_def gatherEdgeWeights_def Let_def)

theorem C4_backtracking_witness:
  "fst (getNonsingularInverse demo_collab demo_singular) \<and>
   simplex_basis (snd (getNonsingularInverse demo_collab demo_singular)) =
     \<lparr>basicIndex = [2, 3], nonbasicFlag = [1, 1, 0, 0], nonbasicMove = [1, 1, 0, 0]\<rparr> \<and>
   update_limit (simplex_info (snd (getNonsingularInverse demo_collab demo_singular))) = 5"
  using C4_backtracking [of demo_collab demo_singular 1 "()" "[2, 2]" "[]" "[]" 0 "()" "[2, 3]" "[]" "[]"]
  by (simp add: demo_defs)

section \<open>The solution returned by the engine\<close>

lemma length_scatterBasic [simp]: "length (scatterBasic m bi val xs) = length xs"
  unfolding scatterBasic_def by (induction m) auto

lemma scatterBasic_Suc:
  "scatterBasic (Suc m) bi val xs = (scatterBasic m bi val xs)[bi ! m := val m]"
  by (simp add: scatterBasic_def)

lemma scatterBasic_other:
  "\<forall>r<m. bi ! r \<noteq> v \<Longrightarrow> scatterBasic m bi val xs ! v = xs ! v"
  by (induction m) (auto simp: scatterBasic_Suc scatterBasic_def)

lemma scatterBasic_hit:
  assumes "r < m" "m \<le> length bi" "distinct bi" "bi ! r < length xs"
  shows "scatterBasic m bi val xs ! (bi ! r) = val r"
  using assms
proof (induction m)
  case 0 then show ?case by simp
next
  case (Suc m)
  show ?case
  proof (cases "r = m")
    case True
    then show ?thesis using Suc.prems by (simp add: scatterBasic_Suc)
  next
    case False
    then have "r < m" using Suc.prems by simp
    moreover have "bi ! m \<noteq> bi ! r"
      using Suc.prems False by (simp add: nth_eq_iff_index_eq)
    ultimately show ?thesis using Suc by (simp add: scatterBasic_Suc)
  qed
qed


lemma fill_cols:
  "foldl (\<lambda>sol iCol. sol\<lparr>col_value := (col_value sol)[iCol := f iCol],
                          col_dual := (col_dual sol)[iCol := g iCol]\<rparr>) sol0 [0..<n]
   = sol0\<lparr>col_value := foldl (\<lambda>xs i. xs[i := f i]) (col_value sol0) [0..<n],
          col_dual := foldl (\<lambda>xs i. xs[i := g i]) (col_dual sol0) [0..<n]\<rparr>"
  by (induction n) auto

lemma fill_rows:
  "foldl (\<lambda>sol iRow. sol\<lparr>row_value := (row_value sol)[iRow := f iRow],
                          row_dual := (row_dual sol)[iRow := g iRow]\<rparr>) sol0 [0..<n]
   = sol0\<lparr>row_value := foldl (\<lambda>xs i. xs[i := f i]) (row_value sol0) [0..<n],
          row_dual := foldl (\<lambda>xs i. xs[i := g i]) (row_dual sol0) [0..<n]\<rparr>"
  by (induction n) auto

lemma length_fill [simp]: "length (foldl (\<lambda>xs i. xs[i := f i]) xs [0..<n]) = length xs"
  by (induction n) auto

lemma nth_fill:
  "i < n \<Longrightarrow> n \<le> length xs \<Longrightarrow> foldl (\<lambda>xs i. xs[i := f i]) xs [0..<n] ! i = (f i :: 'a)"
  by (induction n) (auto simp: nth_list_update less_Suc_eq)

text \<open>
  Claim C10.  On an engine whose arrays are allocated and whose basic index array is
  a repeat-free selection of variables, \<^verbatim>\<open>getSolution\<close> returns vectors of the
  LP's dimensions in which: a basic column \<open>bi ! r\<close> has the value
  \<open>baseValue ! r\<close> and the dual 0; the row of a basic slack \<open>bi ! r\<close> has the
  value \<open>- baseValue ! r\<close> and the dual 0; a nonbasic column \<open>j\<close> has the value
  \<open>workValue ! j\<close> and the dual \<open>workDual ! j\<close> times the objective sense; and
  the row \<open>i\<close> of a nonbasic slack has the value \<open>- workValue ! (numCol + i)\<close> and
  the dual \<open>workDual ! (numCol + i)\<close> times the objective sense.
\<close>

theorem C10_getSolution:
  assumes ok: "work_arrays_ok s"
  defines "lp \<equiv> simplex_lp s" and "bi \<equiv> basicIndex (simplex_basis s)"
    and "work \<equiv> simplex_work s" and "sol \<equiv> fst (getSolution s)"
  shows "length (col_value sol) = numCol lp \<and> length (col_dual sol) = numCol lp \<and>
         length (row_value sol) = numRow lp \<and> length (row_dual sol) = numRow lp \<and>
         (\<forall>r<numRow lp. bi ! r < numCol lp \<longrightarrow>
            col_value sol ! (bi ! r) = baseValue work ! r \<and> col_dual sol ! (bi ! r) = 0) \<and>
         (\<forall>r<numRow lp. numCol lp \<le> bi ! r \<longrightarrow>
            row_value sol ! (bi ! r - numCol lp) = - baseValue work ! r \<and>
            row_dual sol ! (bi ! r - numCol lp) = 0) \<and>
         (\<forall>j<numCol lp. j \<notin> set bi \<longrightarrow>
            col_value sol ! j = workValue work ! j \<and>
            col_dual sol ! j = sense_int (sense lp) * workDual work ! j) \<and>
         (\<forall>i<numRow lp. numCol lp + i \<notin> set bi \<longrightarrow>
            row_value sol ! i = - workValue work ! (numCol lp + i) \<and>
            row_dual sol ! i = sense_int (sense lp) * workDual work ! (numCol lp + i))"
proof -
  let ?n = "numCol lp" and ?m = "numRow lp"
  let ?wv = "scatterBasic ?m bi (\<lambda>iRow. baseValue work ! iRow) (workValue work)"
  let ?wd = "scatterBasic ?m bi (\<lambda>iRow. 0) (workDual work)"
  from ok have len: "length bi = ?m" and dist: "distinct bi"
    and rng: "\<forall>v\<in>set bi. v < ?n + ?m"
    and lwv: "length (workValue work) = ?n + ?m" and lwd: "length (workDual work) = ?n + ?m"
    by (auto simp: work_arrays_ok_def Let_def lp_def bi_def work_def list_all_iff)
  have cv: "col_value sol = foldl (\<lambda>xs i. xs[i := ?wv ! i]) (replicate ?n 0) [0..<?n]"
    and cd: "col_dual sol = foldl (\<lambda>xs i. xs[i := sense_int (sense lp) * ?wd ! i]) (replicate ?n 0) [0..<?n]"
    and rv: "row_value sol = foldl (\<lambda>xs i. xs[i := - ?wv ! (?n + i)]) (replicate ?m 0) [0..<?m]"
    and rd: "row_dual sol = foldl (\<lambda>xs i. xs[i := sense_int (sense lp) * ?wd ! (?n + i)]) (replicate ?m 0) [0..<?m]"
    by (simp_all add: sol_def getSolution_def Let_def fill_cols fill_rows resize_def
        lp_def bi_def work_def)
  have hit_v: "?wv ! (bi ! r) = baseValue work ! r" if "r < ?m" for r
    using that len dist rng lwv by (intro scatterBasic_hit) auto
  have hit_d: "?wd ! (bi ! r) = 0" if "r < ?m" for r
    using that len dist rng lwd by (intro scatterBasic_hit) auto
  have miss_v: "?wv ! v = workValue work ! v" if "v \<notin> set bi" for v
    using that len by (intro scatterBasic_other) (auto simp: in_set_conv_nth)
  have miss_d: "?wd ! v = workDual work ! v" if "v \<notin> set bi" for v
    using that len by (intro scatterBasic_other) (auto simp: in_set_conv_nth)
  have in_rows: "bi ! r - ?n < ?m" if "r < ?m" "?n \<le> bi ! r" for r
    using that rng len by (metis add.commute less_diff_conv2 nth_mem)
  show ?thesis
    using in_rows by (auto simp: cv cd rv rd nth_fill hit_v hit_d miss_v miss_d)
qed


theorem C10_getSolution_witness:
  "work_arrays_ok demo_mixed \<and>
   fst (getSolution demo_mixed) =
     \<lparr>col_value = [3, 0], col_dual = [0, 2], row_value = [0, 5], row_dual = [0, 0]\<rparr>"
  using C10_getSolution [of demo_mixed]
  by (simp add: demo_mixed_defs getSolution_def scatterBasic_def resize_def sense_int_def
      work_arrays_ok_def Let_def upt_rec eval_nat_numeral)

section \<open>Bound flips in correctDual\<close>

text \<open>
  The variables the claim is about: nonbasic, with finite lower and upper working
  bounds, and with move times dual at most minus the dual feasibility tolerance; and
  the change of the dual objective the claim gives for the flip of such a variable.
\<close>

definition flip_candidate :: "'f Collab \<Rightarrow> 'f HEkk \<Rightarrow> nat \<Rightarrow> bool" where
  "flip_candidate cb s i \<longleftrightarrow>
     nonbasicFlag (simplex_basis s) ! i \<noteq> 0 \<and>
     workLower (simplex_work s) ! i \<noteq> - kHighsInf cb \<and>
     workUpper (simplex_work s) ! i \<noteq> kHighsInf cb \<and>
     real_of_int (nonbasicMove (simplex_basis s) ! i) * workDual (simplex_work s) ! i
       \<le> - dual_feasibility_tolerance (options s)"

definition flip_objective_change :: "'f HEkk \<Rightarrow> nat \<Rightarrow> real" where
  "flip_objective_change s i =
     real_of_int (nonbasicMove (simplex_basis s) ! i) *
     (workUpper (simplex_work s) ! i - workLower (simplex_work s) ! i) *
     workDual (simplex_work s) ! i * cost_scale s"

text \<open>The work arrays and the basis arrays have one entry per variable.\<close>

definition work_sized :: "'f HEkk \<Rightarrow> bool" where
  "work_sized s \<longleftrightarrow>
     (let num_tot = numCol (simplex_lp s) + numRow (simplex_lp s); work = simplex_work s
      in length (nonbasicFlag (simplex_basis s)) = num_tot \<and>
         length (nonbasicMove (simplex_basis s)) = num_tot \<and>
         length (workCost work) = num_tot \<and> length (workDual work) = num_tot \<and>
         length (workLower work) = num_tot \<and> length (workUpper work) = num_tot \<and>
         length (workValue work) = num_tot)"

text \<open>What the loop of \<^verbatim>\<open>correctDual\<close> never changes.\<close>

definition cd_frame :: "'f HEkk \<Rightarrow> 'f HEkk \<Rightarrow> bool" where
  "cd_frame s s' \<longleftrightarrow>
     simplex_lp s' = simplex_lp s \<and> options s' = options s \<and> cost_scale s' = cost_scale s \<and>
     nonbasicFlag (simplex_basis s') = nonbasicFlag (simplex_basis s) \<and>
     workLower (simplex_work s') = workLower (simplex_work s) \<and>
     workUpper (simplex_work s') = workUpper (simplex_work s) \<and>
     length (nonbasicMove (simplex_basis s')) = length (nonbasicMove (simplex_basis s)) \<and>
     length (workValue (simplex_work s')) = length (workValue (simplex_work s)) \<and>
     length (workDual (simplex_work s')) = length (workDual (simplex_work s))"

lemma cd_frame_refl: "cd_frame s s"
  by (simp add: cd_frame_def)

lemma cd_frame_trans: "cd_frame s s' \<Longrightarrow> cd_frame s' s'' \<Longrightarrow> cd_frame s s''"
  by (simp add: cd_frame_def)

lemma body_frame: "cd_frame s (fst (correctDual_body cb t (s, acc) i))"
  by (simp add: correctDual_body_def flipBound_def cd_frame_def Let_def split: prod.splits)

lemma body_other:
  assumes "j \<noteq> i"
  shows "nonbasicMove (simplex_basis (fst (correctDual_body cb t (s, acc) i))) ! j
           = nonbasicMove (simplex_basis s) ! j"
    and "workDual (simplex_work (fst (correctDual_body cb t (s, acc) i))) ! j
           = workDual (simplex_work s) ! j"
    and "workValue (simplex_work (fst (correctDual_body cb t (s, acc) i))) ! j
           = workValue (simplex_work s) ! j"
  using assms
  by (simp_all add: correctDual_body_def flipBound_def Let_def split: prod.splits)

lemma body_flip:
  assumes "flip_candidate cb s i" and "t = dual_feasibility_tolerance (options s)"
    and "i < length (nonbasicMove (simplex_basis s))"
    and "i < length (workValue (simplex_work s))"
  shows "nonbasicMove (simplex_basis (fst (correctDual_body cb t (s, acc) i))) ! i
           = - (nonbasicMove (simplex_basis s) ! i)"
    and "workValue (simplex_work (fst (correctDual_body cb t (s, acc) i))) ! i
           = (if - (nonbasicMove (simplex_basis s) ! i) = 1
              then workLower (simplex_work s) ! i else workUpper (simplex_work s) ! i)"
    and "flip_dual_objective_value_change (snd (correctDual_body cb t (s, acc) i))
           = flip_dual_objective_value_change acc + flip_objective_change s i"
  using assms
  by (auto simp add: correctDual_body_def flipBound_def flip_candidate_def
      flip_objective_change_def Let_def split: prod.splits)

lemma body_noflip:
  assumes "\<not> flip_candidate cb s i" and "t = dual_feasibility_tolerance (options s)"
  shows "flip_dual_objective_value_change (snd (correctDual_body cb t (s, acc) i))
           = flip_dual_objective_value_change acc"
  using assms
  by (auto simp add: correctDual_body_def flip_candidate_def Let_def split: prod.splits)


lemma flip_candidate_cong:
  assumes "cd_frame s s'"
    and "nonbasicMove (simplex_basis s') ! i = nonbasicMove (simplex_basis s) ! i"
    and "workDual (simplex_work s') ! i = workDual (simplex_work s) ! i"
  shows "flip_candidate cb s' i = flip_candidate cb s i"
    and "flip_objective_change s' i = flip_objective_change s i"
  using assms by (simp_all add: flip_candidate_def flip_objective_change_def cd_frame_def)

lemma correctDual_upto:
  fixes s :: "'f HEkk" and cb :: "'f Collab" and acc0 :: CorrectDualLocals and n :: nat
  assumes "n \<le> length (nonbasicMove (simplex_basis s))"
    and "n \<le> length (workValue (simplex_work s))"
  defines "t \<equiv> dual_feasibility_tolerance (options s)"
  defines "st \<equiv> foldl (correctDual_body cb t) (s, acc0) [0..<n]"
  shows "cd_frame s (fst st) \<and>
         (\<forall>j\<ge>n. nonbasicMove (simplex_basis (fst st)) ! j = nonbasicMove (simplex_basis s) ! j \<and>
                workDual (simplex_work (fst st)) ! j = workDual (simplex_work s) ! j) \<and>
         (\<forall>j<n. flip_candidate cb s j \<longrightarrow>
            nonbasicMove (simplex_basis (fst st)) ! j = - (nonbasicMove (simplex_basis s) ! j) \<and>
            workValue (simplex_work (fst st)) ! j =
              (if - (nonbasicMove (simplex_basis s) ! j) = 1
               then workLower (simplex_work s) ! j else workUpper (simplex_work s) ! j)) \<and>
         flip_dual_objective_value_change (snd st) =
           flip_dual_objective_value_change acc0 +
           sum_list (map (flip_objective_change s) (filter (flip_candidate cb s) [0..<n]))"
  using assms(1,2) unfolding st_def
proof (induction n)
  case 0
  then show ?case by (simp add: cd_frame_refl)
next
  case (Suc n)
  let ?st = "foldl (correctDual_body cb t) (s, acc0) [0..<n]"
  let ?s1 = "fst ?st" and ?a1 = "snd ?st"
  let ?st2 = "correctDual_body cb t (?s1, ?a1) n"
  have IH: "cd_frame s ?s1"
    "\<And>j. n \<le> j \<Longrightarrow> nonbasicMove (simplex_basis ?s1) ! j = nonbasicMove (simplex_basis s) ! j"
    "\<And>j. n \<le> j \<Longrightarrow> workDual (simplex_work ?s1) ! j = workDual (simplex_work s) ! j"
    "\<And>j. j < n \<Longrightarrow> flip_candidate cb s j \<Longrightarrow>
        nonbasicMove (simplex_basis ?s1) ! j = - (nonbasicMove (simplex_basis s) ! j) \<and>
        workValue (simplex_work ?s1) ! j =
          (if - (nonbasicMove (simplex_basis s) ! j) = 1
           then workLower (simplex_work s) ! j else workUpper (simplex_work s) ! j)"
    "flip_dual_objective_value_change ?a1 =
       flip_dual_objective_value_change acc0 +
       sum_list (map (flip_objective_change s) (filter (flip_candidate cb s) [0..<n]))"
    using Suc.IH Suc.prems by auto
  have step: "foldl (correctDual_body cb t) (s, acc0) [0..<Suc n] = ?st2"
    by simp
  have t1: "t = dual_feasibility_tolerance (options ?s1)"
    using IH(1) by (simp add: cd_frame_def t_def)
  have same: "flip_candidate cb ?s1 n = flip_candidate cb s n"
    "flip_objective_change ?s1 n = flip_objective_change s n"
    using flip_candidate_cong [OF IH(1), of n] IH(2,3) by simp_all
  have ln: "n < length (nonbasicMove (simplex_basis ?s1))"
    "n < length (workValue (simplex_work ?s1))"
    using IH(1) Suc.prems by (simp_all add: cd_frame_def)
  have fr: "cd_frame s (fst ?st2)"
    using cd_frame_trans [OF IH(1) body_frame [of ?s1 cb t ?a1 n]] by simp
  have ge: "nonbasicMove (simplex_basis (fst ?st2)) ! j = nonbasicMove (simplex_basis s) ! j \<and>
            workDual (simplex_work (fst ?st2)) ! j = workDual (simplex_work s) ! j"
    if "Suc n \<le> j" for j
    using that body_other(1,2) [of j n cb t ?s1 ?a1] IH(2,3) [of j] by simp
  have lt: "nonbasicMove (simplex_basis (fst ?st2)) ! j = - (nonbasicMove (simplex_basis s) ! j) \<and>
        workValue (simplex_work (fst ?st2)) ! j =
          (if - (nonbasicMove (simplex_basis s) ! j) = 1
           then workLower (simplex_work s) ! j else workUpper (simplex_work s) ! j)"
    if "j < Suc n" "flip_candidate cb s j" for j
  proof (cases "j = n")
    case True
    have fc: "flip_candidate cb ?s1 n" using that True same by simp
    show ?thesis
      using body_flip(1,2) [OF fc t1 ln, of ?a1] IH(1,2) True
      by (simp add: cd_frame_def)
  next
    case False
    then have "j < n" using that by simp
    then show ?thesis
      using IH(4) [of j] that body_other(1,3) [of j n cb t ?s1 ?a1] False by simp
  qed
  have acc: "flip_dual_objective_value_change (snd ?st2) =
           flip_dual_objective_value_change acc0 +
           sum_list (map (flip_objective_change s) (filter (flip_candidate cb s) [0..<Suc n]))"
  proof (cases "flip_candidate cb s n")
    case True
    then have fc: "flip_candidate cb ?s1 n" using same by simp
    show ?thesis
      using body_flip(3) [OF fc t1 ln, of ?a1] IH(5) True same by simp
  next
    case False
    then have fc: "\<not> flip_candidate cb ?s1 n" using same by simp
    show ?thesis
      using body_noflip [OF fc t1, of ?a1] IH(5) False by simp
  qed
  show ?case
    unfolding step using fr ge lt acc by simp
qed

lemma correctDual_loop_flips:
  assumes sized: "work_sized s"
    and i: "i < numCol (simplex_lp s) + numRow (simplex_lp s)"
    and cand: "flip_candidate cb s i"
  shows "nonbasicMove (simplex_basis (fst (correctDual_loop cb s))) ! i
           = - (nonbasicMove (simplex_basis s) ! i) \<and>
         workValue (simplex_work (fst (correctDual_loop cb s))) ! i
           = (if nonbasicMove (simplex_basis (fst (correctDual_loop cb s))) ! i = 1
              then workLower (simplex_work s) ! i else workUpper (simplex_work s) ! i) \<and>
         flip_dual_objective_value_change (snd (correctDual_loop cb s))
           = sum_list (map (flip_objective_change s)
               (filter (flip_candidate cb s) [0..<numCol (simplex_lp s) + numRow (simplex_lp s)]))"
proof -
  let ?n = "numCol (simplex_lp s) + numRow (simplex_lp s)"
  have l: "?n \<le> length (nonbasicMove (simplex_basis s))" "?n \<le> length (workValue (simplex_work s))"
    using sized by (simp_all add: work_sized_def Let_def)
  show ?thesis
    using correctDual_upto [OF l, of cb] i cand
    by (simp add: correctDual_loop_def)
qed

text \<open>
  The engine that \<^verbatim>\<open>correctDual\<close> leaves is the engine after its loop, whether it
  returns true or false.
\<close>

lemma correctDual_state:
  "snd (snd (correctDual cb s)) = fst (correctDual_loop cb s)"
  by (simp add: correctDual_def case_prod_beta)

text \<open>
  Claim C5.  For every nonbasic variable \<open>i\<close> with finite working bounds whose move
  times dual is at most \<open>- tau_d\<close> when \<^verbatim>\<open>correctDual\<close> is called, the engine that
  \<^verbatim>\<open>correctDual\<close> leaves has \<open>nonbasicMove ! i\<close> negated and \<open>workValue ! i\<close> at
  the bound the new move selects (the lower bound for \<open>+1\<close>, else the upper bound),
  and the flip change of the dual objective that its loop has accumulated (a local
  variable, which the function only logs) is the sum, over these variables, of
  \<open>move * (upper - lower) * dual * cost_scale\<close> with the move and the dual from
  before the flip.
\<close>

theorem C5_correctDual_flips:
  assumes sized: "work_sized s"
    and i: "i < numCol (simplex_lp s) + numRow (simplex_lp s)"
    and cand: "flip_candidate cb s i"
  shows "nonbasicMove (simplex_basis (snd (snd (correctDual cb s)))) ! i
           = - (nonbasicMove (simplex_basis s) ! i) \<and>
         workValue (simplex_work (snd (snd (correctDual cb s)))) ! i
           = (if nonbasicMove (simplex_basis (snd (snd (correctDual cb s)))) ! i = 1
              then workLower (simplex_work s) ! i else workUpper (simplex_work s) ! i) \<and>
         flip_dual_objective_value_change (snd (correctDual_loop cb s))
           = sum_list (map (flip_objective_change s)
               (filter (flip_candidate cb s) [0..<numCol (simplex_lp s) + numRow (simplex_lp s)]))"
  using correctDual_loop_flips [OF sized i cand]
  by (simp only: correctDual_state)

lemma demo_loop:
  "correctDual_loop demo_collab demo_ekk =
     (demo_ekk\<lparr>simplex_basis := (simplex_basis demo_ekk)\<lparr>nonbasicMove := [- 1, 1, 0, 0]\<rparr>,
               simplex_work := (simplex_work demo_ekk)\<lparr>workValue := [1, 0, 0, 0]\<rparr>\<rparr>,
      \<lparr>workCount = 0, flip_dual_objective_value_change = - 1,
       shift_dual_objective_value_change = 0, num_flip = 1, num_shift = 0,
       sum_flip = 1, sum_shift = 0, num_shift_skipped = 0\<rparr>)"
  by (simp add: correctDual_loop_def correctDual_body_def flipBound_def demo_defs Let_def
      upt_rec)

lemma demo_correctDual:
  "correctDual demo_collab demo_ekk =
     (True, Some 0,
      demo_ekk\<lparr>simplex_basis := (simplex_basis demo_ekk)\<lparr>nonbasicMove := [- 1, 1, 0, 0]\<rparr>,
               simplex_work := (simplex_work demo_ekk)\<lparr>workValue := [1, 0, 0, 0]\<rparr>\<rparr>)"
  by (simp add: correctDual_def demo_loop)

theorem C5_correctDual_flips_witness:
  "work_sized demo_ekk \<and> flip_candidate demo_collab demo_ekk 0 \<and>
   fst (correctDual demo_collab demo_ekk) \<and>
   nonbasicMove (simplex_basis (snd (snd (correctDual demo_collab demo_ekk)))) ! 0 = - 1 \<and>
   workValue (simplex_work (snd (snd (correctDual demo_collab demo_ekk)))) ! 0 = 1 \<and>
   flip_dual_objective_value_change (snd (correctDual_loop demo_collab demo_ekk)) = - 1"
  using C5_correctDual_flips [of demo_ekk 0 demo_collab]
  by (simp add: demo_loop demo_correctDual) (simp add: work_sized_def flip_candidate_def demo_defs)

section \<open>The base of the cost perturbation\<close>

text \<open>
  The quantities of the claim, in the spec's words: the largest absolute cost of a
  column, the shrink function (the identity up to 100, the fourth root above), and
  the share of the variables whose working range is finite (below \<open>10^30\<close>).
\<close>

definition max_abs_cost :: "SimplexLp \<Rightarrow> real" where
  "max_abs_cost lp = Max (set (map (\<lambda>i. \<bar>colCost lp ! i\<bar>) [0..<numCol lp]))"

definition shrink :: "real \<Rightarrow> real" where
  "shrink c = (if c \<le> 100 then c else root 4 c)"

definition boxed_rate :: "'f HEkk \<Rightarrow> real" where
  "boxed_rate s =
     (let num_tot = numCol (simplex_lp s) + numRow (simplex_lp s) in
      real (length (filter (\<lambda>i. workRange (simplex_work s) ! i < 10 ^ 30) [0..<num_tot]))
        / real num_tot)"

text \<open>
  The base as the claim states it (the base itself capped at 1 when the boxed rate is
  below 1 percent), and as amended (the shrunk cost magnitude capped at 1 before it is
  multiplied by \<open>5 * 10^-7\<close>).
\<close>

definition claimed_base :: "'f HEkk \<Rightarrow> real" where
  "claimed_base s =
     (let base = 5 / 10 ^ 7 * shrink (max_abs_cost (simplex_lp s))
      in if boxed_rate s < 1 / 100 then min base 1 else base)"

definition amended_base :: "'f HEkk \<Rightarrow> real" where
  "amended_base s =
     (let shrunk = shrink (max_abs_cost (simplex_lp s))
      in 5 / 10 ^ 7 * (if boxed_rate s < 1 / 100 then min shrunk 1 else shrunk))"

lemma col_cost_fold:
  "foldl (\<lambda>work iCol. work\<lparr>workCost := (workCost work)[iCol := f iCol],
                             workShift := (workShift work)[iCol := g iCol]\<rparr>) w0 xs
   = w0\<lparr>workCost := foldl (\<lambda>c i. c[i := f i]) (workCost w0) xs,
         workShift := foldl (\<lambda>c i. c[i := g i]) (workShift w0) xs\<rparr>"
  by (induction xs arbitrary: w0) auto

lemma length_fill_list [simp]: "length (foldl (\<lambda>c i. c[i := f i]) c0 xs) = length c0"
  by (induction xs arbitrary: c0) auto

lemma nth_fill_notin: "i \<notin> set xs \<Longrightarrow> foldl (\<lambda>c i. c[i := f i]) c0 xs ! i = c0 ! i"
  by (induction xs arbitrary: c0) auto

lemma nth_fill_in:
  "i \<in> set xs \<Longrightarrow> i < length c0 \<Longrightarrow> foldl (\<lambda>c i. c[i := f i]) c0 xs ! i = (f i :: 'a)"
proof (induction xs arbitrary: c0 rule: rev_induct)
  case Nil then show ?case by simp
next
  case (snoc x xs) then show ?case by (cases "i = x") auto
qed

lemma foldl_max:
  "foldl (\<lambda>bigc i. max bigc (f i)) (b::real) xs = Max (insert b (f ` set xs))"
proof (induction xs arbitrary: b)
  case Nil then show ?case by simp
next
  case (Cons x xs)
  have "Max (insert (max b (f x)) (f ` set xs)) = Max (insert b (insert (f x) (f ` set xs)))"
  proof (cases "set xs = {}")
    case True
    then show ?thesis by (simp add: max.commute)
  next
    case False
    then have ne: "f ` set xs \<noteq> {}" by simp
    have fin: "finite (f ` set xs)" by simp
    show ?thesis
      using Max_insert [OF fin ne] Max_insert [of "insert (f x) (f ` set xs)" b] fin
      by (simp add: max.assoc)
  qed
  then show ?case using Cons by simp
qed

lemma foldl_count:
  "foldl (\<lambda>rate i. rate + (if P i then 1 else 0)) (r::real) xs = r + real (length (filter P xs))"
  by (induction xs arbitrary: r) auto

lemma sqrt_sqrt: "sqrt (sqrt x) = root 4 x"
proof -
  have "root (2 * 2) x = root 2 (root 2 x)" by (rule real_root_mult_exp)
  then show ?thesis by (simp add: sqrt_def)
qed


lemma initialiseLpCosts_frame:
  "simplex_lp (initialiseLpCosts s) = simplex_lp s"
  "workRange (simplex_work (initialiseLpCosts s)) = workRange (simplex_work s)"
  "dual_simplex_cost_perturbation_multiplier (simplex_info (initialiseLpCosts s))
     = dual_simplex_cost_perturbation_multiplier (simplex_info s)"
  by (simp_all add: initialiseLpCosts_def initialiseLpRowCost_def initialiseLpColCost_def
      Let_def col_cost_fold)

lemma initialiseLpCosts_workCost:
  assumes "i < numCol (simplex_lp s)"
    and "numCol (simplex_lp s) \<le> length (workCost (simplex_work s))"
  shows "workCost (simplex_work (initialiseLpCosts s)) ! i
           = sense_int (sense (simplex_lp s)) * colCost (simplex_lp s) ! i"
  using assms
  by (simp add: initialiseLpCosts_def initialiseLpRowCost_def initialiseLpColCost_def
      Let_def col_cost_fold nth_fill_notin nth_fill_in)

lemma abs_sense_int [simp]: "\<bar>sense_int sn * c\<bar> = \<bar>c\<bar>"
  by (cases sn) (simp_all add: sense_int_def)

lemma base_is_amended:
  assumes pos: "0 < numCol (simplex_lp s)"
    and len: "numCol (simplex_lp s) \<le> length (workCost (simplex_work s))"
  shows "cost_perturbation_base (initialiseLpCosts s) = amended_base s"
proof -
  let ?n = "numCol (simplex_lp s)"
  let ?s2 = "initialiseLpCosts s"
  let ?A = "(\<lambda>i. \<bar>colCost (simplex_lp s) ! i\<bar>) ` set [0..<?n]"
  have img: "(\<lambda>i. \<bar>workCost (simplex_work ?s2) ! i\<bar>) ` set [0..<?n] = ?A"
    using initialiseLpCosts_workCost [OF _ len] by (intro image_cong) auto
  have ne: "?A \<noteq> {}" using pos by simp
  have fin: "finite ?A" by simp
  have "\<exists>a\<in>?A. 0 \<le> a" using pos by (intro bexI [of _ "\<bar>colCost (simplex_lp s) ! 0\<bar>"]) auto
  then have "0 \<le> Max ?A" using Max_ge_iff [OF fin ne, of 0] by simp
  then have mx: "Max (insert 0 ?A) = Max ?A"
    using Max_insert [OF fin ne, of 0] by simp
  have bigc0: "foldl (\<lambda>bigc i. max bigc \<bar>workCost (simplex_work ?s2) ! i\<bar>) 0 [0..<?n]
        = max_abs_cost (simplex_lp s)"
    unfolding foldl_max img mx by (simp add: max_abs_cost_def)
  have sh: "(if 100 < c then sqrt (sqrt c) else c) = shrink c" for c :: real
    by (simp add: shrink_def sqrt_sqrt)
  show ?thesis
    unfolding cost_perturbation_base_def Let_def initialiseLpCosts_frame bigc0 sh foldl_count
    by (simp add: amended_base_def boxed_rate_def Let_def)
qed

text \<open>
  Claim C6, as amended.  For the dual simplex with perturbation enabled, a nonzero
  multiplier and at least one column, \<^verbatim>\<open>initialiseCost\<close> perturbs the LP costs
  with the base \<open>5 * 10^-7 * b\<close>, where \<open>b\<close> is \<open>shrink (max |c|)\<close>, capped at
  1 when the boxed rate is below 1 percent.
\<close>

theorem C6_perturbation_base:
  assumes "0 < numCol (simplex_lp s)"
    and "numCol (simplex_lp s) \<le> length (workCost (simplex_work s))"
    and "dual_simplex_cost_perturbation_multiplier (simplex_info s) \<noteq> 0"
  shows "initialiseCost cb kDual solvePhase True s
           = Some (perturbCosts cb (amended_base s) (initialiseLpCosts s))"
  using assms base_is_amended [of s]
  by (simp add: initialiseCost_def Let_def initialiseLpCosts_frame)


lemma demo_unboxed_costs:
  "workCost (simplex_work (initialiseLpCosts demo_unboxed)) = [1, 2, 0, 0]"
  by (simp add: initialiseLpCosts_def initialiseLpRowCost_def initialiseLpColCost_def
      demo_unboxed_def demo_defs Let_def col_cost_fold sense_int_def upt_demo)

text \<open>
  The claim as stated caps the base, not the cost magnitude.  In the example the
  largest cost is 2 and no variable has a finite range: the source's base is
  \<open>5 * 10^-7\<close>, the claimed one \<open>10^-6\<close>.
\<close>

theorem C6_counterexample:
  "boxed_rate demo_unboxed < 1 / 100 \<and>
   cost_perturbation_base (initialiseLpCosts demo_unboxed) = 5 / 10 ^ 7 \<and>
   claimed_base demo_unboxed = 10 / 10 ^ 7"
proof -
  have r: "boxed_rate demo_unboxed = 0"
    by (simp add: boxed_rate_def demo_unboxed_def demo_defs upt_demo)
  have m: "max_abs_cost (simplex_lp demo_unboxed) = 2"
    by (simp add: max_abs_cost_def demo_unboxed_def demo_defs upt_demo)
  have b: "cost_perturbation_base (initialiseLpCosts demo_unboxed) = 5 / 10 ^ 7"
    by (simp add: cost_perturbation_base_def Let_def initialiseLpCosts_frame demo_unboxed_costs)
       (simp add: demo_unboxed_def demo_defs upt_demo)
  show ?thesis
    by (simp add: r m b claimed_base_def shrink_def)
qed

theorem C6_perturbation_base_witness:
  "0 < numCol (simplex_lp demo_unboxed) \<and>
   dual_simplex_cost_perturbation_multiplier (simplex_info demo_unboxed) \<noteq> 0 \<and>
   amended_base demo_unboxed = 5 / 10 ^ 7 \<and>
   initialiseCost demo_collab kDual 2 True demo_unboxed
     = Some (perturbCosts demo_collab (5 / 10 ^ 7) (initialiseLpCosts demo_unboxed))"
proof -
  have r: "boxed_rate demo_unboxed = 0"
    by (simp add: boxed_rate_def demo_unboxed_def demo_defs upt_demo)
  have m: "max_abs_cost (simplex_lp demo_unboxed) = 2"
    by (simp add: max_abs_cost_def demo_unboxed_def demo_defs upt_demo)
  have a: "amended_base demo_unboxed = 5 / 10 ^ 7"
    by (simp add: amended_base_def r m shrink_def)
  have h: "0 < numCol (simplex_lp demo_unboxed)"
    "numCol (simplex_lp demo_unboxed) \<le> length (workCost (simplex_work demo_unboxed))"
    "dual_simplex_cost_perturbation_multiplier (simplex_info demo_unboxed) \<noteq> 0"
    by (simp_all add: demo_unboxed_def demo_defs)
  show ?thesis
    using C6_perturbation_base [OF h, of demo_collab 2] h a by simp
qed

section \<open>Adding rows to an LP with a basis\<close>

lemma basis_fold_split:
  "foldl (\<lambda>sb i. sb\<lparr>nonbasicFlag := (nonbasicFlag sb)[a i := fa i],
                      nonbasicMove := (nonbasicMove sb)[a i := fb i],
                      basicIndex := (basicIndex sb)[c i := fc i]\<rparr>) sb0 xs
   = sb0\<lparr>nonbasicFlag := foldl (\<lambda>ys i. ys[a i := fa i]) (nonbasicFlag sb0) xs,
         nonbasicMove := foldl (\<lambda>ys i. ys[a i := fb i]) (nonbasicMove sb0) xs,
         basicIndex := foldl (\<lambda>ys i. ys[c i := fc i]) (basicIndex sb0) xs\<rparr>"
  by (induction xs arbitrary: sb0) auto

lemma fold_upd_append:
  "\<forall>i\<in>set xs. g i < length zs \<Longrightarrow>
   foldl (\<lambda>ys i. ys[g i := f i]) (zs @ ws) xs = foldl (\<lambda>ys i. ys[g i := f i]) zs xs @ ws"
  by (induction xs arbitrary: zs) (auto simp: list_update_append1)

lemma length_fold_upd [simp]: "length (foldl (\<lambda>ys i. ys[g i := f i]) zs xs) = length zs"
  by (induction xs arbitrary: zs) auto

lemma fold_append_at:
  "length ys = off + m \<Longrightarrow>
   foldl (\<lambda>xs i. xs[off + i := f i]) (ys @ replicate k d) [m..<m + k] = ys @ map f [m..<m + k]"
proof (induction k)
  case 0 then show ?case by simp
next
  case (Suc k)
  have "foldl (\<lambda>xs i. xs[off + i := f i]) ((ys @ replicate k d) @ [d]) [m..<m + k]
        = foldl (\<lambda>xs i. xs[off + i := f i]) (ys @ replicate k d) [m..<m + k] @ [d]"
    using Suc.prems by (intro fold_upd_append) auto
  then have "foldl (\<lambda>xs i. xs[off + i := f i]) (ys @ replicate (Suc k) d) [m..<m + k]
        = (ys @ map f [m..<m + k]) @ [d]"
    using Suc by (simp add: replicate_append_same)
  then show ?case using Suc.prems by (simp add: nth_append list_update_append)
qed

lemma resize_grow: "length xs \<le> n \<Longrightarrow> resize n d xs = xs @ replicate (n - length xs) d"
  by (simp add: resize_def)

lemma appendBasicRows_basis:
  fixes h :: "'f Highs"
  defines "sb \<equiv> simplex_basis (ekk_instance h)"
    and "n \<equiv> num_col (model_lp h)" and "m \<equiv> num_row (model_lp h)"
  assumes v: "valid (basis h)" and hb: "has_basis (simplex_lp_status (ekk_instance h))"
    and k: "0 < k"
    and lens: "length (basicIndex sb) = m" "length (nonbasicFlag sb) = n + m"
      "length (nonbasicMove sb) = n + m"
  shows "simplex_basis (ekk_instance (appendBasicRowsToBasisInterface k h)) =
           \<lparr>basicIndex = basicIndex sb @ [n + m..<n + m + k],
            nonbasicFlag = nonbasicFlag sb @ replicate k 0,
            nonbasicMove = nonbasicMove sb @ replicate k 0\<rparr>"
proof -
  have f1: "foldl (\<lambda>ys i. ys[n + i := kNonbasicFlagFalse])
              (nonbasicFlag sb @ replicate k 0) [m..<m + k] = nonbasicFlag sb @ replicate k 0"
    using fold_append_at [of "nonbasicFlag sb" n m "\<lambda>i. kNonbasicFlagFalse" k 0] lens
    by (simp add: kNonbasicFlagFalse_def map_replicate_const)
  have f2: "foldl (\<lambda>ys i. ys[n + i := 0])
              (nonbasicMove sb @ replicate k 0) [m..<m + k] = nonbasicMove sb @ replicate k (0::int)"
    using fold_append_at [of "nonbasicMove sb" n m "\<lambda>i. 0" k 0] lens
    by (simp add: map_replicate_const)
  have f3: "foldl (\<lambda>ys i. ys[i := n + i])
              (basicIndex sb @ replicate k 0) [m..<m + k] = basicIndex sb @ [n + m..<n + m + k]"
  proof -
    have "map (\<lambda>i. n + i) [m..<m + k] = [n + m..<n + m + k]"
      by (induction k) (auto simp: add.assoc)
    then show ?thesis
      using fold_append_at [of "basicIndex sb" 0 m "\<lambda>i. n + i" k 0] lens by simp
  qed
  show ?thesis
    using v hb k lens
    by (simp add: appendBasicRowsToBasisInterface_def Let_def basis_fold_split resize_grow
        sb_def [symmetric] n_def [symmetric] m_def [symmetric] f1 f2 f3)
qed


lemma extendRowScale_dims [simp]:
  "num_col (fst (extendRowScale ic opts n l m)) = num_col l"
  "num_row (fst (extendRowScale ic opts n l m)) = num_row l"
  by (simp_all add: extendRowScale_def Let_def split: prod.splits)

text \<open>
  \<^verbatim>\<open>appendBasicRowsToBasisInterface\<close> changes nothing of the engine but its simplex
  basis.
\<close>

lemma appendBasicRows_engine:
  "ekk_instance (appendBasicRowsToBasisInterface k h) =
     (ekk_instance h)\<lparr>simplex_basis :=
        simplex_basis (ekk_instance (appendBasicRowsToBasisInterface k h))\<rparr>"
  by (simp add: appendBasicRowsToBasisInterface_def Let_def)

text \<open>
  The last statement of \<^verbatim>\<open>addRowsInterface\<close> is the call of the engine's
  \<^verbatim>\<open>addRows\<close>, a collaborator.  The lemma and the theorem say on which engine it is
  called, and assume nothing of it.
\<close>

lemma addRowsCommit_engine:
  fixes h1 :: "'f Highs"
  defines "sb \<equiv> simplex_basis (ekk_instance h1)"
    and "n \<equiv> num_col (model_lp h1)" and "m \<equiv> num_row (model_lp h1)"
  assumes v: "valid (basis h1)" and hb: "has_basis (simplex_lp_status (ekk_instance h1))"
    and k: "0 < k"
    and lens: "length (basicIndex sb) = m" "length (nonbasicFlag sb) = n + m"
      "length (nonbasicMove sb) = n + m"
  shows "\<exists>l mtx'. ekk_instance (addRowsCommit ic k mtx h1) =
           ekk_addRows ic l mtx'
             ((ekk_instance h1)\<lparr>simplex_basis :=
                \<lparr>basicIndex = basicIndex sb @ [n + m..<n + m + k],
                 nonbasicFlag = nonbasicFlag sb @ replicate k 0,
                 nonbasicMove = nonbasicMove sb @ replicate k 0\<rparr>\<rparr>)"
proof -
  let ?l2 = "(model_lp h1)\<lparr>a_matrix := matrix_addRows ic (a_matrix (model_lp h1)) mtx\<rparr>"
  let ?l3 = "fst (extendRowScale ic (highs_options h1) k ?l2 mtx)"
  let ?h2 = "h1\<lparr>model_lp := ?l3\<rparr>"
  have a: "simplex_basis (ekk_instance (appendBasicRowsToBasisInterface k ?h2)) =
           \<lparr>basicIndex = basicIndex sb @ [n + m..<n + m + k],
            nonbasicFlag = nonbasicFlag sb @ replicate k 0,
            nonbasicMove = nonbasicMove sb @ replicate k 0\<rparr>"
    using appendBasicRows_basis [of ?h2 k] v hb k lens
    by (simp add: sb_def n_def m_def)
  have e: "ekk_instance (appendBasicRowsToBasisInterface k ?h2) =
           (ekk_instance h1)\<lparr>simplex_basis :=
                \<lparr>basicIndex = basicIndex sb @ [n + m..<n + m + k],
                 nonbasicFlag = nonbasicFlag sb @ replicate k 0,
                 nonbasicMove = nonbasicMove sb @ replicate k 0\<rparr>\<rparr>"
    using appendBasicRows_engine [of k ?h2] by (simp add: a)
  have "ekk_instance (addRowsCommit ic k mtx h1) =
          ekk_addRows ic
            ((addRowNames ic k (model_lp (appendBasicRowsToBasisInterface k ?h2)))
               \<lparr>num_row := num_row (addRowNames ic k
                   (model_lp (appendBasicRowsToBasisInterface k ?h2))) + k\<rparr>)
            (snd (extendRowScale ic (highs_options h1) k ?l2 mtx))
            (ekk_instance (appendBasicRowsToBasisInterface k ?h2))"
    using v
    by (simp add: addRowsCommit_def Let_def invalidateModelStatusSolutionAndInfo_def
        case_prod_beta)
  then show ?thesis
    unfolding e by blast
qed

text \<open>
  Claim C3, as amended.  On an LP with a valid basis and a simplex basis (whose arrays
  have the LP's dimensions), when \<^verbatim>\<open>addRowsInterface\<close> adds \<open>n' > 0\<close> rows
  without error, the engine on which it finally calls the engine's \<^verbatim>\<open>addRows\<close>
  is the engine of before with this simplex basis: the entries of \<open>basicIndex\<close> are
  unchanged (the slack of row \<open>i\<close> is variable \<open>numCol + i\<close> before and after, so
  nothing shifts), every variable keeps its \<open>nonbasicFlag\<close> and \<open>nonbasicMove\<close>
  at its index, and the \<open>n'\<close> new slacks \<open>numCol + numRow, ...\<close> are appended as
  basic, with flag 0 and move 0.  What the engine's \<^verbatim>\<open>addRows\<close> makes of it is not
  in the sources.
\<close>

theorem C3_addRows_basis:
  fixes h :: "'f Highs" and cb :: "'f Collab" and ic :: "'f IfaceCollab"
    and ext_num_new_row ext_num_new_nz :: int
    and ext_row_lower ext_row_upper ext_ar_value :: "real list option"
    and ext_ar_start ext_ar_index :: "int list option"
  defines "sb \<equiv> simplex_basis (ekk_instance h)"
    and "n \<equiv> num_col (model_lp h)" and "m \<equiv> num_row (model_lp h)"
  defines "res \<equiv> addRowsInterface cb ic ext_num_new_row ext_row_lower ext_row_upper
                    ext_num_new_nz ext_ar_start ext_ar_index ext_ar_value h"
  assumes v: "valid (basis h)" and hb: "has_basis (simplex_lp_status (ekk_instance h))"
    and lens: "length (basicIndex sb) = m" "length (nonbasicFlag sb) = n + m"
      "length (nonbasicMove sb) = n + m"
    and pos: "0 < ext_num_new_row" and ok: "fst res \<noteq> kError"
  shows "\<exists>l mtx. ekk_instance (snd res) =
           ekk_addRows ic l mtx
             ((ekk_instance h)\<lparr>simplex_basis :=
                \<lparr>basicIndex = basicIndex sb @ [n + m..<n + m + nat ext_num_new_row],
                 nonbasicFlag = nonbasicFlag sb @ replicate (nat ext_num_new_row) 0,
                 nonbasicMove = nonbasicMove sb @ replicate (nat ext_num_new_row) 0\<rparr>\<rparr>)"
proof -
  let ?k = "nat ext_num_new_row"
  have k: "0 < ?k" using pos by simp
  obtain lower upper where lu: "ext_row_lower = Some lower" "ext_row_upper = Some upper"
    using ok pos unfolding res_def
    by (auto simp: addRowsInterface_def split: option.splits if_splits)
  have chk: "res = addRowsChecked cb ic ?k lower upper (nat ext_num_new_nz)
                     ext_ar_start ext_ar_index ext_ar_value h"
    using ok pos lu unfolding res_def
    by (auto simp: addRowsInterface_def split: if_splits)
  obtain st lo up where ab: "assessBounds ic (highs_options h) m (take ?k lower) (take ?k upper)
      = (st, lo, up)"
    by (metis prod_cases3)
  let ?l1 = "appendRowsToLpVectors (applyUserScale cb (user_bound_scale (model_lp h)) lo)
               (applyUserScale cb (user_bound_scale (model_lp h)) up) (model_lp h)"
  let ?h1 = "h\<lparr>model_lp := ?l1\<rparr>"
  obtain st2 mtx where nm: "newMatrix (highs_options h) kRowwise (num_col ?l1) ?k ?k
      (nat ext_num_new_nz) ext_ar_start ext_ar_index ext_ar_value (interpretCallStatus st kOk)
      = (st2, mtx)"
    by (metis prod.exhaust)
  have st2: "st2 \<noteq> kError" "snd res = addRowsCommit ic ?k mtx ?h1"
    using ok ab nm unfolding chk
    by (auto simp: addRowsChecked_def Let_def m_def split: if_splits)
  have "\<exists>l mtx'. ekk_instance (addRowsCommit ic ?k mtx ?h1) =
           ekk_addRows ic l mtx'
             ((ekk_instance ?h1)\<lparr>simplex_basis :=
                \<lparr>basicIndex = basicIndex sb @ [n + m..<n + m + ?k],
                 nonbasicFlag = nonbasicFlag sb @ replicate ?k 0,
                 nonbasicMove = nonbasicMove sb @ replicate ?k 0\<rparr>\<rparr>)"
    using addRowsCommit_engine [of ?h1 ?k ic mtx] v hb k lens
    by (simp add: sb_def n_def m_def appendRowsToLpVectors_def)
  then show ?thesis using st2 by simp
qed

text \<open>
  The example: both slacks (variables 2 and 3) are basic and one row without nonzeros
  is added, for any engine \<^verbatim>\<open>addRows\<close> whatever, here \<open>hk\<close>.
\<close>

lemma demo_addRows:
  "addRowsInterface demo_collab (demo_iface\<lparr>ekk_addRows := hk\<rparr>)
     1 (Some [0]) (Some [1]) 0 None None None demo_highs =
     (kOk,
      demo_highs\<lparr>
        model_lp := demo_model_lp\<lparr>row_lower := [- 1000000, 0, 0], row_upper := [4, 4, 1],
                      a_matrix := (a_matrix demo_model_lp)\<lparr>m_num_row := 3\<rparr>, num_row := 3\<rparr>,
        basis := (basis demo_highs)\<lparr>row_status := [kBasic, kBasic, kBasic]\<rparr>,
        ekk_instance :=
          hk (demo_model_lp\<lparr>row_lower := [- 1000000, 0, 0], row_upper := [4, 4, 1],
                a_matrix := (a_matrix demo_model_lp)\<lparr>m_num_row := 3\<rparr>, num_row := 3\<rparr>)
             \<lparr>format = kRowwise, m_num_col = 2, m_num_row = 1, a_start = [0, 0],
              a_index = [], a_value = []\<rparr>
             (demo_ekk\<lparr>simplex_basis :=
                \<lparr>basicIndex = [2, 3, 4], nonbasicFlag = [1, 1, 0, 0, 0],
                 nonbasicMove = [1, 1, 0, 0, 0]\<rparr>\<rparr>),
        model_status := kNotset, solution_value_valid := False,
        solution_dual_valid := False, info_valid := False\<rparr>)"
  by (simp add: addRowsInterface_def addRowsChecked_def addRowsCommit_def newMatrix_def
      emptyMatrix_def extendRowScale_def appendBasicRowsToBasisInterface_def
      appendRowsToLpVectors_def applyUserScale_def interpretCallStatus_def
      invalidateModelStatusSolutionAndInfo_def resize_def kNonbasicFlagFalse_def
      demo_highs_defs Let_def eval_nat_numeral)

text \<open>
  The claim as stated has the entries of previously basic slacks shifted by the number
  of new rows.  In the example \<^verbatim>\<open>addRowsInterface\<close> returns Ok, and the engine that
  it hands to the engine's \<^verbatim>\<open>addRows\<close> has the \<open>basicIndex\<close> \<open>[2, 3, 4]\<close>: the
  entries 2 and 3 of the two old slacks are not shifted to 3 and 4 (which would name
  variable 4, the new slack, twice).
\<close>

theorem C3_counterexample:
  "\<forall>hk. valid (basis demo_highs) \<and> has_basis (simplex_lp_status (ekk_instance demo_highs)) \<and>
     basicIndex (simplex_basis (ekk_instance demo_highs)) = [2, 3] \<and>
     fst (addRowsInterface demo_collab (demo_iface\<lparr>ekk_addRows := hk\<rparr>)
            1 (Some [0]) (Some [1]) 0 None None None demo_highs) = kOk \<and>
     ekk_instance (snd (addRowsInterface demo_collab (demo_iface\<lparr>ekk_addRows := hk\<rparr>)
            1 (Some [0]) (Some [1]) 0 None None None demo_highs)) =
       hk (demo_model_lp\<lparr>row_lower := [- 1000000, 0, 0], row_upper := [4, 4, 1],
             a_matrix := (a_matrix demo_model_lp)\<lparr>m_num_row := 3\<rparr>, num_row := 3\<rparr>)
          \<lparr>format = kRowwise, m_num_col = 2, m_num_row = 1, a_start = [0, 0],
           a_index = [], a_value = []\<rparr>
          (demo_ekk\<lparr>simplex_basis :=
             \<lparr>basicIndex = [2, 3, 4], nonbasicFlag = [1, 1, 0, 0, 0],
              nonbasicMove = [1, 1, 0, 0, 0]\<rparr>\<rparr>) \<and>
     [2, 3, 4] ! 0 \<noteq> basicIndex (simplex_basis (ekk_instance demo_highs)) ! 0 + (1::nat)"
  by (simp add: demo_addRows) (simp add: demo_highs_defs)

theorem C3_addRows_basis_witness:
  "\<forall>hk. valid (basis demo_highs) \<and> has_basis (simplex_lp_status (ekk_instance demo_highs)) \<and>
     fst (addRowsInterface demo_collab (demo_iface\<lparr>ekk_addRows := hk\<rparr>)
            1 (Some [0]) (Some [1]) 0 None None None demo_highs) \<noteq> kError \<and>
     (\<exists>l mtx. ekk_instance (snd (addRowsInterface demo_collab (demo_iface\<lparr>ekk_addRows := hk\<rparr>)
            1 (Some [0]) (Some [1]) 0 None None None demo_highs)) =
        hk l mtx (demo_ekk\<lparr>simplex_basis :=
             \<lparr>basicIndex = [2, 3, 4], nonbasicFlag = [1, 1, 0, 0, 0],
              nonbasicMove = [1, 1, 0, 0, 0]\<rparr>\<rparr>))"
proof (intro allI)
  fix hk :: "HighsLp \<Rightarrow> HighsSparseMatrix \<Rightarrow> unit HEkk \<Rightarrow> unit HEkk"
  have h: "valid (basis demo_highs)" "has_basis (simplex_lp_status (ekk_instance demo_highs))"
    "length (basicIndex (simplex_basis (ekk_instance demo_highs))) = num_row (model_lp demo_highs)"
    "length (nonbasicFlag (simplex_basis (ekk_instance demo_highs)))
       = num_col (model_lp demo_highs) + num_row (model_lp demo_highs)"
    "length (nonbasicMove (simplex_basis (ekk_instance demo_highs)))
       = num_col (model_lp demo_highs) + num_row (model_lp demo_highs)"
    "(0::int) < 1"
    by (simp_all add: demo_highs_defs)
  have ok: "fst (addRowsInterface demo_collab (demo_iface\<lparr>ekk_addRows := hk\<rparr>)
              1 (Some [0]) (Some [1]) 0 None None None demo_highs) \<noteq> kError"
    by (simp add: demo_addRows)
  have e: "ekk_instance demo_highs = demo_ekk"
    "simplex_basis demo_ekk =
       \<lparr>basicIndex = [2, 3], nonbasicFlag = [1, 1, 0, 0], nonbasicMove = [1, 1, 0, 0]\<rparr>"
    "num_col (model_lp demo_highs) = 2" "num_row (model_lp demo_highs) = 2"
    by (simp_all add: demo_highs_def demo_ekk_def demo_model_lp_def)
  show "valid (basis demo_highs) \<and> has_basis (simplex_lp_status (ekk_instance demo_highs)) \<and>
     fst (addRowsInterface demo_collab (demo_iface\<lparr>ekk_addRows := hk\<rparr>)
            1 (Some [0]) (Some [1]) 0 None None None demo_highs) \<noteq> kError \<and>
     (\<exists>l mtx. ekk_instance (snd (addRowsInterface demo_collab (demo_iface\<lparr>ekk_addRows := hk\<rparr>)
            1 (Some [0]) (Some [1]) 0 None None None demo_highs)) =
        hk l mtx (demo_ekk\<lparr>simplex_basis :=
             \<lparr>basicIndex = [2, 3, 4], nonbasicFlag = [1, 1, 0, 0, 0],
              nonbasicMove = [1, 1, 0, 0, 0]\<rparr>\<rparr>))"
    using C3_addRows_basis [OF h ok] h(1,2) ok
    by (simp add: e upt_rec)
qed

section \<open>Errors of addColsInterface and the state of the LP\<close>

text \<open>
  The new column of the example has two entries in row 0; the assessment of its matrix
  fails.
\<close>

lemma demo_dup_matrix:
  "assess (small_matrix_value demo_options) (large_matrix_value demo_options)
     (localMatrix kColwise 1 2 1 2 [0] [0, 0] [1, 1])
   = (kError, localMatrix kColwise 1 2 1 2 [0] [0, 0] [1, 1])"
  by (simp add: assess_def localMatrix_def vector_entries_def resize_def demo_options_def
      Let_def upt_rec)

text \<open>
  Claim C2 does not hold of \<^verbatim>\<open>addColsInterface\<close>.  The cost and the bounds of the
  new column are appended to the vectors of the LP before the matrix of the new
  columns is assessed, and the return on a failed assessment does not take them back:
  the call returns Error and leaves an LP with three costs and bounds for its two
  columns.
\<close>

theorem C2_addCols_partial_mutation:
  "fst (addColsInterface demo_collab demo_iface 1 (Some [3]) (Some [0]) (Some [1])
         2 (Some [0]) (Some [0, 0]) (Some [1, 1]) demo_highs) = kError \<and>
   snd (addColsInterface demo_collab demo_iface 1 (Some [3]) (Some [0]) (Some [1])
         2 (Some [0]) (Some [0, 0]) (Some [1, 1]) demo_highs)
     = demo_highs\<lparr>model_lp := demo_model_lp\<lparr>col_cost := [1, 2, 3], col_lower := [0, 0, 0],
                                   col_upper := [1, 1000000, 1]\<rparr>\<rparr> \<and>
   model_lp (snd (addColsInterface demo_collab demo_iface 1 (Some [3]) (Some [0]) (Some [1])
         2 (Some [0]) (Some [0, 0]) (Some [1, 1]) demo_highs)) \<noteq> model_lp demo_highs"
proof -
  have m: "assess (1 / 1000000000) 1000000000000000
          (localMatrix kColwise (Suc 0) 2 (Suc 0) 2 [0] [0, 0] [1, 1])
        = (kError, localMatrix kColwise (Suc 0) 2 (Suc 0) 2 [0] [0, 0] [1, 1])"
    using demo_dup_matrix by (simp add: demo_options_def)
  have r: "addColsInterface demo_collab demo_iface 1 (Some [3]) (Some [0]) (Some [1])
         2 (Some [0]) (Some [0, 0]) (Some [1, 1]) demo_highs
     = (kError, demo_highs\<lparr>model_lp := demo_model_lp\<lparr>col_cost := [1, 2, 3],
                   col_lower := [0, 0, 0], col_upper := [1, 1000000, 1]\<rparr>\<rparr>)"
    by (simp add: addColsInterface_def addColsChecked_def newMatrix_def m
        appendColsToLpVectors_def applyUserScale_def interpretCallStatus_def
        demo_highs_def demo_model_lp_def demo_iface_def demo_options_def Let_def)
  show ?thesis
    unfolding r by (simp add: demo_highs_def demo_model_lp_def)
qed

section \<open>The partition of the variables into basic and nonbasic\<close>











lemma length_resize [simp]: "length (resize n d xs) = n"
  by (simp add: resize_def)


























section \<open>The solve: an optimal start, and the second opinion of the primal simplex\<close>

text \<open>
  Without the requirement of a known basis the factorisation step of the
  initialisation never fails, and the costs are initialised without perturbation: the
  initialisation is a sequence of total steps.  The two equations below are those that
  the examples are computed with.
\<close>

lemma initialiseSimplexLpBasisAndFactor_default:
  "fst (initialiseSimplexLpBasisAndFactor cb False s) = 0"
  by (simp add: initialiseSimplexLpBasisAndFactor_def Let_def case_prod_beta)

lemma initialiseData_total:
  "initialiseData cb s \<noteq> None"
  by (simp add: initialiseData_def initialiseCost_def Let_def)

lemma initialiseForSolve_total:
  "\<exists>s'. initialiseForSolve cb s = Some (kOk, s')"
proof -
  obtain e s1 where i: "initialiseSimplexLpBasisAndFactor cb False s = (e, s1)"
    by (cases "initialiseSimplexLpBasisAndFactor cb False s")
  have e: "e = 0"
    using initialiseSimplexLpBasisAndFactor_default [of cb s] by (simp add: i)
  obtain s2 where d: "initialiseData cb s1 = Some s2"
    using initialiseData_total [of cb s1] by auto
  show ?thesis
    by (simp add: initialiseForSolve_def i e d Let_def)
qed

lemma initialiseForSolve_status:
  assumes "initialiseForSolve cb s = Some (kOk, s')"
  shows "scaled_model_status s' =
           (if num_primal_infeasibility (simplex_info s') = 0 \<and>
               num_dual_infeasibility (simplex_info s') = 0 then kOptimal else kNotset)"
  using assms
  by (auto simp: initialiseForSolve_def Let_def case_prod_beta
      split: if_splits option.splits)

lemma initialiseData_eq [code]:
  "initialiseData cb s =
     Some (computePrimalObjectiveValue (computeDualObjectiveValue 2
       (computeSimplexInfeasible cb (computeDual cb (computePrimal cb
         (initialiseNonbasicValueAndMove cb
           (initialiseBound cb kPrimal (kSolvePhaseUnknown cb) False
             (initialiseLpCosts (allocateWorkAndBaseArrays (initialiseMatrix
               (updateSimplexOptions s)))))))))))"
  by (simp add: initialiseData_def initialiseCost_def Let_def)

lemma initialiseForSolve_eq [code]:
  "initialiseForSolve cb s =
     (let s2 = the (initialiseData cb (snd (initialiseSimplexLpBasisAndFactor cb False s)));
          s3 = s2\<lparr>simplex_lp_status := (simplex_lp_status s2)\<lparr>status_valid := True\<rparr>\<rparr>
      in Some (kOk,
               s3\<lparr>scaled_model_status :=
                    (if num_primal_infeasibility (simplex_info s2) = 0 \<and>
                        num_dual_infeasibility (simplex_info s2) = 0
                     then kOptimal else kNotset)\<rparr>))"
proof -
  obtain e s1 where i: "initialiseSimplexLpBasisAndFactor cb False s = (e, s1)"
    by (cases "initialiseSimplexLpBasisAndFactor cb False s")
  have e: "e = 0"
    using initialiseSimplexLpBasisAndFactor_default [of cb s] by (simp add: i)
  obtain s2 where d: "initialiseData cb s1 = Some s2"
    using initialiseData_total [of cb s1] by auto
  show ?thesis
    by (simp add: initialiseForSolve_def i e d Let_def)
qed

text \<open>
  Claim C8.  \<^verbatim>\<open>initialiseForSolve\<close> always returns Ok, with an engine \<open>s'\<close>.  If the
  numbers of primal and of dual infeasibilities that it has computed, the ones of
  \<open>s'\<close>, are both zero, then the model status of \<open>s'\<close> is \<^verbatim>\<open>kOptimal\<close> and
  \<^verbatim>\<open>solve\<close> returns Ok with the engine \<open>s'\<close>, whatever the drivers are: neither is
  called.
\<close>

theorem C8_optimal_without_driver:
  "\<exists>s'. initialiseForSolve cb (s\<lparr>iteration_count := 0\<rparr>) = Some (kOk, s') \<and>
         (num_primal_infeasibility (simplex_info s') = 0 \<and>
          num_dual_infeasibility (simplex_info s') = 0 \<longrightarrow>
            scaled_model_status s' = kOptimal \<and>
            (\<forall>dr. solve cb dr s = Some (kOk, s')))"
proof -
  obtain s' where i: "initialiseForSolve cb (s\<lparr>iteration_count := 0\<rparr>) = Some (kOk, s')"
    using initialiseForSolve_total by blast
  have "scaled_model_status s' = kOptimal \<and> (\<forall>dr. solve cb dr s = Some (kOk, s'))"
    if z: "num_primal_infeasibility (simplex_info s') = 0 \<and>
           num_dual_infeasibility (simplex_info s') = 0"
  proof -
    have o: "scaled_model_status s' = kOptimal"
      using initialiseForSolve_status [OF i] z by simp
    then show ?thesis by (simp add: solve_def i)
  qed
  then show ?thesis using i by blast
qed

theorem C8_optimal_without_driver_witness:
  "num_primal_infeasibility (simplex_info (snd (the
     (initialiseForSolve demo_collab (demo_fresh\<lparr>iteration_count := 0\<rparr>))))) = 0 \<and>
   num_dual_infeasibility (simplex_info (snd (the
     (initialiseForSolve demo_collab (demo_fresh\<lparr>iteration_count := 0\<rparr>))))) = 0 \<and>
   basicIndex (simplex_basis (snd (the
     (initialiseForSolve demo_collab (demo_fresh\<lparr>iteration_count := 0\<rparr>))))) = [1] \<and>
   workValue (simplex_work (snd (the
     (initialiseForSolve demo_collab (demo_fresh\<lparr>iteration_count := 0\<rparr>))))) = [0, 0] \<and>
   workDual (simplex_work (snd (the
     (initialiseForSolve demo_collab (demo_fresh\<lparr>iteration_count := 0\<rparr>))))) = [1, 0] \<and>
   baseValue (simplex_work (snd (the
     (initialiseForSolve demo_collab (demo_fresh\<lparr>iteration_count := 0\<rparr>))))) = [0] \<and>
   scaled_model_status (snd (the
     (initialiseForSolve demo_collab (demo_fresh\<lparr>iteration_count := 0\<rparr>)))) = kOptimal \<and>
   (\<forall>dr. solve demo_collab dr demo_fresh =
      Some (kOk, snd (the (initialiseForSolve demo_collab (demo_fresh\<lparr>iteration_count := 0\<rparr>)))))"
proof -
  let ?s = "snd (the (initialiseForSolve demo_collab (demo_fresh\<lparr>iteration_count := 0\<rparr>)))"
  have z: "num_primal_infeasibility (simplex_info ?s) = 0"
    "num_dual_infeasibility (simplex_info ?s) = 0"
    by code_simp+
  have v: "basicIndex (simplex_basis ?s) = [1]" "workValue (simplex_work ?s) = [0, 0]"
    "workDual (simplex_work ?s) = [1, 0]" "baseValue (simplex_work ?s) = [0]"
    by code_simp+
  obtain s' where s': "initialiseForSolve demo_collab (demo_fresh\<lparr>iteration_count := 0\<rparr>)
      = Some (kOk, s')"
    and imp: "num_primal_infeasibility (simplex_info s') = 0 \<and>
          num_dual_infeasibility (simplex_info s') = 0 \<longrightarrow>
            scaled_model_status s' = kOptimal \<and>
            (\<forall>dr. solve demo_collab dr demo_fresh = Some (kOk, s'))"
    using C8_optimal_without_driver [of demo_collab demo_fresh] by blast
  have e: "?s = s'" by (simp add: s')
  show ?thesis using z v imp unfolding e by blast
qed



end
